theory Spec2Isabelle
  imports Complex_Main "HOL-Library.AList" "HOL-Library.Sublist" "HOL-Library.Word"
begin

section \<open>JavaScript values\<close>

text \<open>
  The worker handles parsed JSON bodies with the dynamic operations of JavaScript.
  A value is modelled as it is at run time; an object is the list of its own properties
  in insertion order. Numbers are exact rationals (token counts and limits are integers;
  NaN, the infinities and the rounding of doubles are not part of the model).
  Strings are lists of 8-bit characters; case mapping and white space are those of ASCII.
\<close>

datatype jsval =
    Undefined
  | Null
  | Bool bool
  | Num rat
  | Str string
  | Arr "jsval list"
  | Obj "(string \<times> jsval) list"

text \<open>
  \<open>TypeError\<close> is the exception JavaScript throws when a property of \<open>undefined\<close> or
  \<open>null\<close> is read or when something that is not a function is called. \<open>Unmodelled\<close> marks
  the few coercions of ill-typed operands (a string turned into a number, a number into
  a string) that the model does not compute.
\<close>

datatype error = TypeError | Unmodelled

type_synonym 'a result = "error + 'a"

definition and_then :: "'a result \<Rightarrow> ('a \<Rightarrow> 'b result) \<Rightarrow> 'b result" where
  "and_then m f = (case m of Inl e \<Rightarrow> Inl e | Inr v \<Rightarrow> f v)"

fun map_result :: "('a \<Rightarrow> 'b result) \<Rightarrow> 'a list \<Rightarrow> 'b list result" where
  "map_result f [] = Inr []"
| "map_result f (x # xs) =
     and_then (f x) (\<lambda>y. and_then (map_result f xs) (\<lambda>ys. Inr (y # ys)))"

text \<open>Truthiness, as used by \<open>||\<close>, \<open>&&\<close>, \<open>!\<close> and \<open>if\<close>.\<close>

fun truthy :: "jsval \<Rightarrow> bool" where
  "truthy Undefined = False"
| "truthy Null = False"
| "truthy (Bool b) = b"
| "truthy (Num n) = (n \<noteq> 0)"
| "truthy (Str s) = (s \<noteq> [])"
| "truthy (Arr xs) = True"
| "truthy (Obj kv) = True"

text \<open>\<open>a || b\<close>\<close>

definition js_or :: "jsval \<Rightarrow> jsval \<Rightarrow> jsval" where
  "js_or a b = (if truthy a then a else b)"

text \<open>
  \<open>v.k\<close> for the property names the worker reads. None of them is an inherited
  property; \<open>length\<close> is the only one that strings and arrays have of their own.
\<close>

fun get_prop :: "jsval \<Rightarrow> string \<Rightarrow> jsval result" where
  "get_prop Undefined k = Inl TypeError"
| "get_prop Null k = Inl TypeError"
| "get_prop (Obj kv) k = Inr (case map_of kv k of Some v \<Rightarrow> v | None \<Rightarrow> Undefined)"
| "get_prop (Str s) k = Inr (if k = ''length'' then Num (of_nat (length s)) else Undefined)"
| "get_prop (Arr xs) k = Inr (if k = ''length'' then Num (of_nat (length xs)) else Undefined)"
| "get_prop (Bool b) k = Inr Undefined"
| "get_prop (Num n) k = Inr Undefined"

text \<open>\<open>v?.k\<close>\<close>

fun opt_prop :: "jsval \<Rightarrow> string \<Rightarrow> jsval" where
  "opt_prop Undefined k = Undefined"
| "opt_prop Null k = Undefined"
| "opt_prop v k = (case get_prop v k of Inr x \<Rightarrow> x | Inl e \<Rightarrow> Undefined)"

text \<open>\<open>v[0]\<close> and \<open>v?.[0]\<close>\<close>

fun elem0 :: "jsval \<Rightarrow> jsval result" where
  "elem0 Undefined = Inl TypeError"
| "elem0 Null = Inl TypeError"
| "elem0 (Arr xs) = Inr (case xs of [] \<Rightarrow> Undefined | x # _ \<Rightarrow> x)"
| "elem0 (Str s) = Inr (case s of [] \<Rightarrow> Undefined | c # _ \<Rightarrow> Str [c])"
| "elem0 (Obj kv) = Inr (case map_of kv ''0'' of Some v \<Rightarrow> v | None \<Rightarrow> Undefined)"
| "elem0 (Bool b) = Inr Undefined"
| "elem0 (Num n) = Inr Undefined"

fun opt_elem0 :: "jsval \<Rightarrow> jsval" where
  "opt_elem0 Undefined = Undefined"
| "opt_elem0 Null = Undefined"
| "opt_elem0 v = (case elem0 v of Inr x \<Rightarrow> x | Inl e \<Rightarrow> Undefined)"

text \<open>\<open>v.length > 0\<close>, for a truthy \<open>v\<close>.\<close>

fun length_positive :: "jsval \<Rightarrow> bool result" where
  "length_positive Undefined = Inl TypeError"
| "length_positive Null = Inl TypeError"
| "length_positive (Arr xs) = Inr (xs \<noteq> [])"
| "length_positive (Str s) = Inr (s \<noteq> [])"
| "length_positive (Bool b) = Inr False"
| "length_positive (Num n) = Inr False"
| "length_positive (Obj kv) =
     (case map_of kv ''length'' of
        None \<Rightarrow> Inr False
      | Some Undefined \<Rightarrow> Inr False
      | Some Null \<Rightarrow> Inr False
      | Some (Bool b) \<Rightarrow> Inr b
      | Some (Num n) \<Rightarrow> Inr (0 < n)
      | Some v \<Rightarrow> Inl Unmodelled)"

subsection \<open>Strings\<close>

definition nl :: char where
  "nl = CHR 0x0A"

definition js_space :: "char \<Rightarrow> bool" where
  "js_space c \<longleftrightarrow> c \<in> set [CHR 0x09, CHR 0x0A, CHR 0x0B, CHR 0x0C, CHR 0x0D, CHR 0x20]"

text \<open>\<open>s.trim()\<close>\<close>

definition js_trim :: "string \<Rightarrow> string" where
  "js_trim s = rev (dropWhile js_space (rev (dropWhile js_space s)))"

definition lower_char :: "char \<Rightarrow> char" where
  "lower_char c =
     (case map_of (zip ''ABCDEFGHIJKLMNOPQRSTUVWXYZ'' ''abcdefghijklmnopqrstuvwxyz'') c of
        Some d \<Rightarrow> d | None \<Rightarrow> c)"

definition upper_char :: "char \<Rightarrow> char" where
  "upper_char c =
     (case map_of (zip ''abcdefghijklmnopqrstuvwxyz'' ''ABCDEFGHIJKLMNOPQRSTUVWXYZ'') c of
        Some d \<Rightarrow> d | None \<Rightarrow> c)"

text \<open>\<open>v.toLowerCase()\<close>, \<open>v?.toLowerCase()\<close> and the same for upper case.\<close>

fun toLowerCase :: "jsval \<Rightarrow> jsval result" where
  "toLowerCase (Str s) = Inr (Str (map lower_char s))"
| "toLowerCase v = Inl TypeError"

fun opt_toLowerCase :: "jsval \<Rightarrow> jsval result" where
  "opt_toLowerCase Undefined = Inr Undefined"
| "opt_toLowerCase Null = Inr Undefined"
| "opt_toLowerCase v = toLowerCase v"

fun toUpperCase :: "jsval \<Rightarrow> jsval result" where
  "toUpperCase (Str s) = Inr (Str (map upper_char s))"
| "toUpperCase v = Inl TypeError"

fun opt_toUpperCase :: "jsval \<Rightarrow> jsval result" where
  "opt_toUpperCase Undefined = Inr Undefined"
| "opt_toUpperCase Null = Inr Undefined"
| "opt_toUpperCase v = toUpperCase v"

text \<open>\<open>hay.includes(needle)\<close> on strings.\<close>

definition str_includes :: "string \<Rightarrow> string \<Rightarrow> bool" where
  "str_includes hay needle = sublist needle hay"

text \<open>Decimal notation of a natural number, as \<open>String(n)\<close> writes it.\<close>

function show_nat :: "nat \<Rightarrow> string" where
  "show_nat n =
     (if n < 10 then [''0123456789'' ! n]
      else show_nat (n div 10) @ [''0123456789'' ! (n mod 10)])"
  by pat_completeness auto
termination
  by (relation "measure id") auto

declare show_nat.simps [simp del]

section \<open>The platform\<close>

text \<open>
  \<open>JSON.parse\<close>, \<open>JSON.stringify\<close> and the clock belong to the runtime, not to the
  worker. They are parameters of the model: \<open>json_parse\<close> returns \<open>None\<close> where
  \<open>JSON.parse\<close> throws a SyntaxError, \<open>date_now\<close> is the reading of \<open>Date.now()\<close> in
  milliseconds (one reading for the time of a call).
\<close>

record js_env =
  json_parse :: "string \<Rightarrow> jsval option"
  json_stringify :: "jsval \<Rightarrow> string"
  date_now :: nat

text \<open>\<open>Math.floor(Date.now() / 1000)\<close>\<close>

definition now_seconds :: "nat \<Rightarrow> jsval" where
  "now_seconds now = Num (of_nat (now div 1000))"

section \<open>Requests\<close>

text \<open>
  The own enumerable properties of a value, which \<open>{...v}\<close> and a rest pattern copy:
  the index properties of an array or of a string, nothing for the other primitives.
\<close>

fun own_props :: "jsval \<Rightarrow> (string \<times> jsval) list" where
  "own_props (Obj kv) = kv"
| "own_props (Arr xs) = zip (map show_nat [0..<length xs]) xs"
| "own_props (Str s) = zip (map show_nat [0..<length s]) (map (\<lambda>c. Str [c]) s)"
| "own_props v = []"

text \<open>
  Numbers out of the primitives that \<open>+\<close> and \<open>Math.min\<close> coerce without parsing:
  \<open>null\<close> is 0, \<open>false\<close> is 0 and \<open>true\<close> is 1.
\<close>

fun to_number :: "jsval \<Rightarrow> rat option" where
  "to_number (Num n) = Some n"
| "to_number (Bool b) = Some (if b then 1 else 0)"
| "to_number Null = Some 0"
| "to_number v = None"

text \<open>\<open>a + b\<close>\<close>

definition js_add :: "jsval \<Rightarrow> jsval \<Rightarrow> jsval result" where
  "js_add a b =
     (case (a, b) of
        (Str x, Str y) \<Rightarrow> Inr (Str (x @ y))
      | _ \<Rightarrow>
         (case (to_number a, to_number b) of
            (Some x, Some y) \<Rightarrow> Inr (Num (x + y))
          | _ \<Rightarrow> Inl Unmodelled))"

text \<open>\<open>Math.min(v, 16384)\<close>\<close>

definition math_min_16384 :: "jsval \<Rightarrow> jsval result" where
  "math_min_16384 v =
     (case to_number v of Some n \<Rightarrow> Inr (Num (min n 16384)) | None \<Rightarrow> Inl Unmodelled)"

text \<open>\<open>xs.join('')\<close>: \<open>undefined\<close> and \<open>null\<close> elements count as the empty string.\<close>

fun join_empty :: "jsval list \<Rightarrow> string result" where
  "join_empty [] = Inr []"
| "join_empty (x # xs) =
     and_then
       (case x of Undefined \<Rightarrow> Inr [] | Null \<Rightarrow> Inr [] | Str s \<Rightarrow> Inr s | _ \<Rightarrow> Inl Unmodelled)
       (\<lambda>s. and_then (join_empty xs) (\<lambda>r. Inr (s @ r)))"

text \<open>\<open>xs.find(p)\<close>: stops at the first element that satisfies \<open>p\<close>.\<close>

fun find_result :: "('a \<Rightarrow> bool result) \<Rightarrow> 'a list \<Rightarrow> 'a option result" where
  "find_result p [] = Inr None"
| "find_result p (x # xs) =
     and_then (p x) (\<lambda>b. if b then Inr (Some x) else find_result p xs)"

text \<open>\<open>xs.filter(p)\<close>\<close>

fun filter_result :: "('a \<Rightarrow> bool result) \<Rightarrow> 'a list \<Rightarrow> 'a list result" where
  "filter_result p [] = Inr []"
| "filter_result p (x # xs) =
     and_then (p x) (\<lambda>b. and_then (filter_result p xs) (\<lambda>r. Inr (if b then x # r else r)))"

text \<open>
  The original HTTP request, as far as the worker looks at it: \<open>headers.get(name)\<close>,
  \<open>None\<close> for \<open>null\<close>.
\<close>

record http_request =
  headers_get :: "string \<Rightarrow> string option"

definition toStandardFormat :: "jsval \<Rightarrow> string \<Rightarrow> jsval result" where
  "toStandardFormat request sourceFormat =
     and_then (get_prop request ''model'') (\<lambda>model.
     and_then (get_prop request ''max_tokens'') (\<lambda>max_tokens.
     and_then (get_prop request ''temperature'') (\<lambda>temperature.
     and_then (get_prop request ''stream'') (\<lambda>stream.
     let standard = (\<lambda>messages.
           [(''messages'', messages),
            (''model'', js_or model (Str [])),
            (''max_tokens'', js_or max_tokens (Num 2048)),
            (''temperature'', js_or temperature (Num (7 / 10))),
            (''stream'', js_or stream (Bool False))])
     in
     if sourceFormat = ''openai'' \<or> sourceFormat = ''openrouter'' then
       and_then (get_prop request ''messages'') (\<lambda>messages.
         Inr (Obj (standard (js_or messages (Arr [])))))
     else if sourceFormat = ''anthropic'' then
       and_then (get_prop request ''messages'') (\<lambda>messages.
       and_then (get_prop request ''system'') (\<lambda>system.
         Inr (Obj (standard (js_or messages (Arr [])) @
                   (if truthy system then [(''system'', system)] else [])))))
     else if sourceFormat = ''gemini'' then
       and_then (get_prop request ''contents'') (\<lambda>contents.
       and_then
         (if truthy contents then
            (case contents of
               Arr cs \<Rightarrow>
                 and_then
                   (map_result (\<lambda>content.
                      and_then (get_prop content ''role'') (\<lambda>role.
                      and_then (get_prop content ''parts'') (\<lambda>parts.
                        (case parts of
                           Arr ps \<Rightarrow>
                             and_then (map_result (\<lambda>part. get_prop part ''text'') ps) (\<lambda>texts.
                             and_then (join_empty texts) (\<lambda>joined.
                               Inr (Obj [(''role'', Str (if role = Str ''user'' then ''user''
                                                         else ''assistant'')),
                                         (''content'', Str joined)])))
                         | _ \<Rightarrow> Inl TypeError)))) cs)
                   (\<lambda>ms. Inr (Arr ms))
             | _ \<Rightarrow> Inl TypeError)
          else Inr (Arr []))
         (\<lambda>messages.
       and_then (get_prop request ''generationConfig'') (\<lambda>generationConfig.
         let max_tokens2 =
               (if truthy generationConfig
                then js_or (opt_prop generationConfig ''maxOutputTokens'') (Num 2048)
                else js_or max_tokens (Num 2048));
             temperature2 =
               (if truthy generationConfig
                then js_or (opt_prop generationConfig ''temperature'') (Num (7 / 10))
                else js_or temperature (Num (7 / 10)))
         in Inr (Obj
           [(''messages'', messages),
            (''model'', if truthy (js_or model (Str [])) then js_or model (Str [])
                        else Str ''gemini-pro''),
            (''max_tokens'', max_tokens2),
            (''temperature'', temperature2),
            (''stream'', js_or stream (Bool False))]))))
     else Inr (Obj (standard (Arr [])))))))"

definition isClaudeModel :: "jsval \<Rightarrow> bool result" where
  "isClaudeModel model =
     (if \<not> truthy model then Inr False
      else and_then (toLowerCase model) (\<lambda>modelLower.
        case modelLower of
          Str s \<Rightarrow> Inr (str_includes s ''claude'' \<or> str_includes s ''anthropic'')
        | _ \<Rightarrow> Inl TypeError))"

definition ephemeral :: jsval where
  "ephemeral = Obj [(''type'', Str ''ephemeral'')]"

text \<open>
  What \<open>addCacheControlToMessages\<close> does to the user message it stops at: the new value
  of \<open>modifiedMessages[i]\<close>.
\<close>

definition mark_message :: "jsval \<Rightarrow> jsval result" where
  "mark_message message =
     and_then (get_prop message ''content'') (\<lambda>content.
       case content of
         Str s \<Rightarrow>
           Inr (Obj (AList.update ''content''
                  (Arr [Obj [(''type'', Str ''text''), (''text'', Str s),
                             (''cache_control'', ephemeral)]])
                  (own_props message)))
       | Arr parts \<Rightarrow>
           (if parts = [] then
              Inr (Obj (AList.update ''content'' (Arr parts) (own_props message)))
            else
              and_then (get_prop (last parts) ''type'') (\<lambda>ty.
                Inr (Obj (AList.update ''content''
                       (Arr (if ty = Str ''text''
                             then butlast parts @
                                  [Obj (AList.update ''cache_control'' ephemeral
                                          (own_props (last parts)))]
                             else parts))
                       (own_props message)))))
       | _ \<Rightarrow> Inr message)"

text \<open>
  The loop \<open>for (let i = modifiedMessages.length - 1; i >= 0; i--)\<close>, with \<open>n = i + 1\<close>:
  it stops at the first message from the end whose role is \<open>user\<close>.
\<close>

fun add_loop :: "jsval list \<Rightarrow> nat \<Rightarrow> jsval list result" where
  "add_loop modifiedMessages 0 = Inr modifiedMessages"
| "add_loop modifiedMessages (Suc i) =
     and_then (get_prop (modifiedMessages ! i) ''role'') (\<lambda>role.
       if role = Str ''user'' then
         and_then (mark_message (modifiedMessages ! i)) (\<lambda>m. Inr (modifiedMessages[i := m]))
       else add_loop modifiedMessages i)"

definition addCacheControlToMessages :: "jsval \<Rightarrow> jsval result" where
  "addCacheControlToMessages messages =
     (if \<not> truthy messages then Inr messages
      else and_then (get_prop messages ''length'') (\<lambda>len.
        if len = Num 0 then Inr messages
        else
          (case messages of
             Arr ms \<Rightarrow> and_then (add_loop ms (length ms)) (\<lambda>r. Inr (Arr r))
           | Str s \<Rightarrow> Inr (Arr (map (\<lambda>c. Str [c]) s))
           | _ \<Rightarrow> Inl TypeError)))"

text \<open>\<open>const { cache_control, ...cleanPart } = part\<close>\<close>

definition clean_part :: "jsval \<Rightarrow> jsval result" where
  "clean_part part =
     (case part of
        Undefined \<Rightarrow> Inl TypeError
      | Null \<Rightarrow> Inl TypeError
      | _ \<Rightarrow> Inr (Obj (AList.delete ''cache_control'' (own_props part))))"

definition clean_message :: "jsval \<Rightarrow> jsval result" where
  "clean_message message =
     and_then (get_prop message ''content'') (\<lambda>content.
       case content of
         Str s \<Rightarrow> Inr message
       | Arr parts \<Rightarrow>
           and_then (map_result clean_part parts) (\<lambda>cleanContent.
             Inr (Obj (AList.update ''content'' (Arr cleanContent) (own_props message))))
       | _ \<Rightarrow> Inr message)"

definition removeCacheControlFromMessages :: "jsval \<Rightarrow> jsval result" where
  "removeCacheControlFromMessages messages =
     (if \<not> truthy messages then Inr messages
      else and_then (get_prop messages ''length'') (\<lambda>len.
        if len = Num 0 then Inr messages
        else
          (case messages of
             Arr ms \<Rightarrow> and_then (map_result clean_message ms) (\<lambda>r. Inr (Arr r))
           | _ \<Rightarrow> Inl TypeError)))"

text \<open>\<open>msg => msg.role === 'system'\<close> and \<open>msg => msg.role !== 'system'\<close>\<close>

definition is_system :: "jsval \<Rightarrow> bool result" where
  "is_system msg = and_then (get_prop msg ''role'') (\<lambda>role. Inr (role = Str ''system''))"

definition not_system :: "jsval \<Rightarrow> bool result" where
  "not_system msg = and_then (get_prop msg ''role'') (\<lambda>role. Inr (role \<noteq> Str ''system''))"

definition fromStandardFormat ::
  "jsval \<Rightarrow> string \<Rightarrow> http_request option \<Rightarrow> string option \<Rightarrow> jsval result" where
  "fromStandardFormat standard targetFormat originalRequest platform =
     (if targetFormat = ''openai'' \<or> targetFormat = ''openrouter'' then
        and_then (get_prop standard ''model'') (\<lambda>model.
        and_then (get_prop standard ''messages'') (\<lambda>messages.
        and_then (get_prop standard ''max_tokens'') (\<lambda>max_tokens.
        and_then (get_prop standard ''temperature'') (\<lambda>temperature.
        and_then (get_prop standard ''stream'') (\<lambda>stream.
        and_then (if platform = Some ''groq'' then math_min_16384 max_tokens
                  else Inr max_tokens) (\<lambda>max_tokens2.
        and_then
          (if platform = Some ''openrouter'' then
             and_then (removeCacheControlFromMessages messages) (\<lambda>cleaned.
               case originalRequest of
                 None \<Rightarrow> Inr cleaned
               | Some req \<Rightarrow>
                  (case headers_get req ''anthropic-beta'' of
                     None \<Rightarrow> Inr cleaned
                   | Some anthropicBeta \<Rightarrow>
                       if anthropicBeta \<noteq> [] \<and> str_includes anthropicBeta ''prompt-caching''
                       then and_then (isClaudeModel model) (\<lambda>claude.
                              if claude then addCacheControlToMessages cleaned
                              else Inr cleaned)
                       else Inr cleaned))
           else Inr messages) (\<lambda>messages2.
          Inr (Obj [(''model'', model),
                    (''messages'', messages2),
                    (''max_tokens'', max_tokens2),
                    (''temperature'', temperature),
                    (''stream'', stream)]))))))))
      else if targetFormat = ''anthropic'' then
        and_then (get_prop standard ''model'') (\<lambda>model.
        and_then (get_prop standard ''messages'') (\<lambda>messages.
        and_then (get_prop standard ''max_tokens'') (\<lambda>max_tokens.
        and_then (get_prop standard ''temperature'') (\<lambda>temperature.
        and_then (get_prop standard ''stream'') (\<lambda>stream.
        and_then (get_prop standard ''system'') (\<lambda>system.
        let anthropicRequest = (\<lambda>msgs.
              [(''model'', model),
               (''messages'', msgs),
               (''max_tokens'', max_tokens),
               (''temperature'', temperature),
               (''stream'', stream)])
        in
        if truthy system then Inr (Obj (anthropicRequest messages @ [(''system'', system)]))
        else
          (case messages of
             Arr ms \<Rightarrow>
               and_then (find_result is_system ms) (\<lambda>found.
                 case found of
                   None \<Rightarrow> Inr (Obj (anthropicRequest messages))
                 | Some systemMessage \<Rightarrow>
                     and_then (get_prop systemMessage ''content'') (\<lambda>content.
                     and_then (filter_result not_system ms) (\<lambda>kept.
                       Inr (Obj (anthropicRequest (Arr kept) @ [(''system'', content)])))))
           | _ \<Rightarrow> Inl TypeError)))))))
      else if targetFormat = ''gemini'' then
        and_then (get_prop standard ''messages'') (\<lambda>messages.
          case messages of
            Arr ms \<Rightarrow>
              and_then
                (map_result (\<lambda>msg.
                   and_then (get_prop msg ''role'') (\<lambda>role.
                   and_then (get_prop msg ''content'') (\<lambda>content.
                     Inr (Obj [(''role'', Str (if role = Str ''user'' then ''user'' else ''model'')),
                               (''parts'', Arr [Obj [(''text'', content)]])])))) ms)
                (\<lambda>contents.
              and_then (get_prop standard ''max_tokens'') (\<lambda>max_tokens.
              and_then (get_prop standard ''temperature'') (\<lambda>temperature.
                Inr (Obj [(''contents'', Arr contents),
                          (''generationConfig'',
                             Obj [(''maxOutputTokens'', max_tokens),
                                  (''temperature'', temperature)])]))))
          | _ \<Rightarrow> Inl TypeError)
      else Inr standard)"

definition convertRequest ::
  "jsval \<Rightarrow> string \<Rightarrow> string \<Rightarrow> http_request option \<Rightarrow> string option \<Rightarrow> jsval result" where
  "convertRequest requestBody sourceFormat targetFormat originalRequest platform =
     and_then (toStandardFormat requestBody sourceFormat) (\<lambda>standardRequest.
       fromStandardFormat standardRequest targetFormat originalRequest platform)"

section \<open>Responses\<close>

definition responseToStandardFormat :: "nat \<Rightarrow> jsval \<Rightarrow> string \<Rightarrow> jsval result" where
  "responseToStandardFormat now response sourceFormat =
     (let standard = (\<lambda>rid model choices usage. Obj
            [(''id'', rid),
             (''object'', Str ''chat.completion''),
             (''created'', now_seconds now),
             (''model'', model),
             (''choices'', Arr choices),
             (''usage'', usage)]);
          zero_usage = Obj [(''prompt_tokens'', Num 0),
                            (''completion_tokens'', Num 0),
                            (''total_tokens'', Num 0)]
      in
      if sourceFormat = ''openai'' \<or> sourceFormat = ''openrouter'' then Inr response
      else if sourceFormat = ''anthropic'' then
        and_then (get_prop response ''id'') (\<lambda>rid.
        and_then (get_prop response ''model'') (\<lambda>model.
        and_then (get_prop response ''content'') (\<lambda>content.
        and_then (get_prop response ''stop_reason'') (\<lambda>stop_reason.
        and_then (get_prop response ''usage'') (\<lambda>usage.
        let input_tokens = js_or (opt_prop usage ''input_tokens'') (Num 0);
            output_tokens = js_or (opt_prop usage ''output_tokens'') (Num 0)
        in
        and_then (js_add input_tokens output_tokens) (\<lambda>total.
          Inr (standard (js_or rid (Str [])) (js_or model (Str []))
                 [Obj [(''index'', Num 0),
                       (''message'',
                          Obj [(''role'', Str ''assistant''),
                               (''content'',
                                  js_or (opt_prop (opt_elem0 content) ''text'') (Str []))]),
                       (''finish_reason'', js_or stop_reason (Str ''stop''))]]
                 (Obj [(''prompt_tokens'', input_tokens),
                       (''completion_tokens'', output_tokens),
                       (''total_tokens'', total)]))))))))
      else if sourceFormat = ''gemini'' then
        (let gid = Str (''gemini-'' @ show_nat now) in
         and_then (get_prop response ''candidates'') (\<lambda>candidates.
           if \<not> truthy candidates then Inr (standard gid (Str ''gemini'') [] zero_usage)
           else and_then (length_positive candidates) (\<lambda>positive.
             if \<not> positive then Inr (standard gid (Str ''gemini'') [] zero_usage)
             else
               and_then (elem0 candidates) (\<lambda>candidate.
               and_then (get_prop candidate ''content'') (\<lambda>content.
               and_then (get_prop candidate ''finishReason'') (\<lambda>finishReason.
               and_then (opt_toLowerCase finishReason) (\<lambda>lowered.
                 Inr (standard gid (Str ''gemini'')
                        [Obj [(''index'', Num 0),
                              (''message'',
                                 Obj [(''role'', Str ''assistant''),
                                      (''content'',
                                         js_or (opt_prop (opt_elem0 (opt_prop content ''parts''))
                                                  ''text'')
                                               (Str []))]),
                              (''finish_reason'', js_or lowered (Str ''stop''))]]
                        zero_usage))))))))
      else Inr (standard (Str []) (Str []) [] zero_usage))"

definition responseFromStandardFormat :: "jsval \<Rightarrow> string \<Rightarrow> jsval result" where
  "responseFromStandardFormat standard targetFormat =
     (if targetFormat = ''openai'' \<or> targetFormat = ''openrouter'' then Inr standard
      else if targetFormat = ''anthropic'' then
        and_then (get_prop standard ''choices'') (\<lambda>choices.
        and_then (elem0 choices) (\<lambda>choice.
        and_then (get_prop standard ''id'') (\<lambda>rid.
        and_then (get_prop standard ''model'') (\<lambda>model.
        and_then (get_prop standard ''usage'') (\<lambda>usage.
        and_then (get_prop usage ''prompt_tokens'') (\<lambda>prompt_tokens.
        and_then (get_prop usage ''completion_tokens'') (\<lambda>completion_tokens.
          Inr (Obj [(''id'', rid),
                    (''type'', Str ''message''),
                    (''role'', Str ''assistant''),
                    (''content'',
                       Arr [Obj [(''type'', Str ''text''),
                                 (''text'',
                                    js_or (opt_prop (opt_prop choice ''message'') ''content'')
                                          (Str []))]]),
                    (''model'', model),
                    (''stop_reason'', js_or (opt_prop choice ''finish_reason'') (Str ''end_turn'')),
                    (''usage'', Obj [(''input_tokens'', prompt_tokens),
                                     (''output_tokens'', completion_tokens)])]))))))))
      else if targetFormat = ''gemini'' then
        and_then (get_prop standard ''choices'') (\<lambda>choices.
        and_then (elem0 choices) (\<lambda>geminiChoice.
        and_then (opt_toUpperCase (opt_prop geminiChoice ''finish_reason'')) (\<lambda>raised.
          Inr (Obj [(''candidates'', Arr
                 [Obj [(''content'',
                          Obj [(''parts'', Arr [Obj [(''text'',
                                  js_or (opt_prop (opt_prop geminiChoice ''message'') ''content'')
                                        (Str []))]]),
                               (''role'', Str ''model'')]),
                       (''finishReason'', js_or raised (Str ''STOP'')),
                       (''index'', Num 0)]])]))))
      else Inr standard)"

definition convertResponse :: "nat \<Rightarrow> jsval \<Rightarrow> string \<Rightarrow> string \<Rightarrow> jsval result" where
  "convertResponse now response sourceFormat targetFormat =
     and_then (responseToStandardFormat now response sourceFormat) (\<lambda>standardResponse.
       responseFromStandardFormat standardResponse targetFormat)"

section \<open>Stream chunks\<close>

definition streamChunkToStandardFormat :: "nat \<Rightarrow> jsval \<Rightarrow> string \<Rightarrow> jsval result" where
  "streamChunkToStandardFormat now chunk sourceFormat =
     and_then (get_prop chunk ''id'') (\<lambda>cid.
     and_then (get_prop chunk ''created'') (\<lambda>created.
     and_then (get_prop chunk ''model'') (\<lambda>model.
     let standard = (\<lambda>choices. Obj
           [(''id'', js_or cid (Str '''')),
            (''object'', Str ''chat.completion.chunk''),
            (''created'', js_or created (now_seconds now)),
            (''model'', js_or model (Str '''')),
            (''choices'', Arr choices)])
     in
     if sourceFormat = ''openai'' \<or> sourceFormat = ''openrouter'' then Inr chunk
     else if sourceFormat = ''anthropic'' then
       and_then (get_prop chunk ''type'') (\<lambda>ty.
         if ty = Str ''content_block_delta'' then
           and_then (get_prop chunk ''delta'') (\<lambda>delta.
             Inr (standard
               [Obj [(''index'', Num 0),
                     (''delta'', Obj [(''content'', js_or (opt_prop delta ''text'') (Str ''''))]),
                     (''finish_reason'', Null)]]))
         else if ty = Str ''message_stop'' then
           Inr (standard
             [Obj [(''index'', Num 0),
                   (''delta'', Obj []),
                   (''finish_reason'', Str ''stop'')]])
         else Inr (standard []))
     else if sourceFormat = ''gemini'' then
       and_then (get_prop chunk ''candidates'') (\<lambda>candidates.
         if \<not> truthy candidates then Inr (standard [])
         else and_then (length_positive candidates) (\<lambda>positive.
           if \<not> positive then Inr (standard [])
           else
             and_then (elem0 candidates) (\<lambda>candidate.
             and_then (get_prop candidate ''content'') (\<lambda>content.
             and_then (get_prop candidate ''finishReason'') (\<lambda>finishReason.
             and_then (opt_toLowerCase finishReason) (\<lambda>lowered.
               Inr (standard
                 [Obj [(''index'', Num 0),
                       (''delta'', Obj [(''content'',
                          js_or (opt_prop (opt_elem0 (opt_prop content ''parts'')) ''text'')
                                (Str ''''))]),
                       (''finish_reason'', js_or lowered Null)]])))))))
     else Inr (standard []))))"

definition streamChunkFromStandardFormat :: "jsval \<Rightarrow> string \<Rightarrow> jsval result" where
  "streamChunkFromStandardFormat standard targetFormat =
     (if targetFormat = ''openai'' \<or> targetFormat = ''openrouter'' then Inr standard
      else if targetFormat = ''anthropic'' then
        and_then (get_prop standard ''choices'') (\<lambda>choices.
        and_then (elem0 choices) (\<lambda>choice.
          if truthy (opt_prop (opt_prop choice ''delta'') ''content'') then
            and_then (get_prop choice ''delta'') (\<lambda>delta.
            and_then (get_prop delta ''content'') (\<lambda>content.
              Inr (Obj [(''type'', Str ''content_block_delta''),
                        (''index'', Num 0),
                        (''delta'', Obj [(''type'', Str ''text_delta''), (''text'', content)])])))
          else if truthy (opt_prop choice ''finish_reason'') then
            Inr (Obj [(''type'', Str ''message_stop'')])
          else Inr standard))
      else if targetFormat = ''gemini'' then
        and_then (get_prop standard ''choices'') (\<lambda>choices.
        and_then (elem0 choices) (\<lambda>geminiChoice.
          if truthy (opt_prop (opt_prop geminiChoice ''delta'') ''content'') then
            and_then (get_prop geminiChoice ''delta'') (\<lambda>delta.
            and_then (get_prop delta ''content'') (\<lambda>content.
            and_then (get_prop geminiChoice ''finish_reason'') (\<lambda>finish_reason.
            and_then (opt_toUpperCase finish_reason) (\<lambda>raised.
              Inr (Obj [(''candidates'', Arr
                     [Obj [(''content'', Obj [(''parts'', Arr [Obj [(''text'', content)]]),
                                              (''role'', Str ''model'')]),
                           (''finishReason'', js_or raised Null),
                           (''index'', Num 0)]])])))))
          else Inr standard))
      else Inr standard)"

definition convertStreamChunk :: "nat \<Rightarrow> jsval \<Rightarrow> string \<Rightarrow> string \<Rightarrow> jsval result" where
  "convertStreamChunk now chunk sourceFormat targetFormat =
     (if sourceFormat = targetFormat then Inr chunk
      else and_then (streamChunkToStandardFormat now chunk sourceFormat)
             (\<lambda>standardChunk. streamChunkFromStandardFormat standardChunk targetFormat))"

section \<open>The event-stream reframer\<close>

text \<open>
  \<open>processStreamLine\<close> writes exactly once on every path; the model returns the text of
  that write. Whatever the inner \<open>try\<close> block throws (a SyntaxError of \<open>JSON.parse\<close> or
  a TypeError of the conversion) is caught by the inner \<open>catch\<close>, which forwards the
  line. Writes to the output are taken to succeed.
\<close>

definition processStreamLine :: "js_env \<Rightarrow> string \<Rightarrow> string \<Rightarrow> string \<Rightarrow> string" where
  "processStreamLine env line sourceFormat targetFormat =
     (if js_trim line = '''' then [nl]
      else if prefix ''data: '' line then
        (let dataStr = drop 6 line in
         if dataStr = ''[DONE]'' \<or> js_trim dataStr = '''' then line @ [nl, nl]
         else
           (case json_parse env dataStr of
              None \<Rightarrow> line @ [nl, nl]
            | Some data \<Rightarrow>
               (case convertStreamChunk (date_now env) data sourceFormat targetFormat of
                  Inl e \<Rightarrow> line @ [nl, nl]
                | Inr convertedData \<Rightarrow>
                    ''data: '' @ json_stringify env convertedData @ [nl, nl])))
      else line @ [nl])"

text \<open>\<open>s.split('\n')\<close>: never empty, the last element is what follows the last newline.\<close>

fun split_nl :: "string \<Rightarrow> string list" where
  "split_nl [] = [[]]"
| "split_nl (c # cs) =
     (if c = nl then [] # split_nl cs
      else (case split_nl cs of [] \<Rightarrow> [[c]] | l # ls \<Rightarrow> (c # l) # ls))"

text \<open>
  The \<open>TextDecoder\<close> in streaming mode is a state machine of the platform: from its state
  and the bytes of one read it gives the decoded text and its next state (it holds back
  an incomplete multi-byte sequence). Its contract, \<open>chunk_invariant\<close>, is that decoding
  is independent of where the input is cut.
\<close>

type_synonym byte = "8 word"

type_synonym 'd decoder = "'d \<Rightarrow> byte list \<Rightarrow> string \<times> 'd"

definition chunk_invariant :: "'d decoder \<Rightarrow> bool" where
  "chunk_invariant dec \<longleftrightarrow>
     (\<forall>s. dec s [] = ([], s)) \<and>
     (\<forall>s a b. dec s (a @ b) =
        (fst (dec s a) @ fst (dec (snd (dec s a)) b), snd (dec (snd (dec s a)) b)))"

text \<open>
  The state of \<open>processStreamData\<close>: the line buffer, the decoder, and the writes made
  so far, oldest first.
\<close>

record 'd reframer =
  buffer :: string
  decoder_state :: 'd
  written :: "string list"

text \<open>
  One turn of the \<open>while\<close> loop, for a read that delivered \<open>val\<close>. The new buffer
  \<open>lines.pop() || ''\<close> is the last element of \<open>lines\<close>, which is never empty.
\<close>

definition on_read ::
  "js_env \<Rightarrow> 'd decoder \<Rightarrow> string \<Rightarrow> string \<Rightarrow> 'd reframer \<Rightarrow> byte list \<Rightarrow> 'd reframer" where
  "on_read env dec sourceFormat targetFormat st val =
     (let (text, d) = dec (decoder_state st) val;
          lines = split_nl (buffer st @ text)
      in \<lparr>buffer = last lines,
          decoder_state = d,
          written = written st @
            map (\<lambda>line. processStreamLine env line sourceFormat targetFormat) (butlast lines)\<rparr>)"

text \<open>
  How the input stream ends: \<open>done\<close>, or a failed read with the message of its error.
\<close>

datatype ending = EndOfData | ReadFailed string

definition run_reads ::
  "js_env \<Rightarrow> 'd decoder \<Rightarrow> 'd \<Rightarrow> string \<Rightarrow> string \<Rightarrow> byte list list \<Rightarrow> 'd reframer" where
  "run_reads env dec d0 sourceFormat targetFormat reads =
     foldl (on_read env dec sourceFormat targetFormat)
       \<lparr>buffer = [], decoder_state = d0, written = []\<rparr> reads"

text \<open>The whole of \<open>processStreamData\<close>: all the writes, in order, up to the close.\<close>

definition processStreamData ::
  "js_env \<Rightarrow> 'd decoder \<Rightarrow> 'd \<Rightarrow> byte list list \<Rightarrow> ending \<Rightarrow> string \<Rightarrow> string \<Rightarrow> string list" where
  "processStreamData env dec d0 reads fin sourceFormat targetFormat =
     (let st = run_reads env dec d0 sourceFormat targetFormat reads in
      case fin of
        EndOfData \<Rightarrow>
          written st @
            (if buffer st \<noteq> [] then [processStreamLine env (buffer st) sourceFormat targetFormat]
             else [])
      | ReadFailed message \<Rightarrow>
          written st @
            [''data: {'' @ [CHR 0x22] @ ''error'' @ [CHR 0x22] @ '': '' @ [CHR 0x22]
              @ ''Stream processing error: '' @ message @ [CHR 0x22] @ ''}'' @ [nl, nl]])"

section \<open>A concrete platform\<close>

text \<open>
  Instances of the platform's parameters, for running the model on examples: a decoder
  for streams of ASCII bytes (it never has to hold a byte back), a parser given by a
  table of the payloads that occur, and a plain serializer.
\<close>

definition ascii_decoder :: "unit decoder" where
  "ascii_decoder s bs = (map (\<lambda>b. char_of (unat b)) bs, s)"

definition bytes_of :: "string \<Rightarrow> byte list" where
  "bytes_of s = map (\<lambda>c. of_nat (of_char c)) s"

definition quote :: "string \<Rightarrow> string" where
  "quote s = [CHR 0x22] @ s @ [CHR 0x22]"

fun join_with :: "string \<Rightarrow> string list \<Rightarrow> string" where
  "join_with sep [] = []"
| "join_with sep [x] = x"
| "join_with sep (x # y # zs) = x @ sep @ join_with sep (y # zs)"

text \<open>
  The serializer writes natural numbers and strings that need no escaping, which is all
  that the examples contain.
\<close>

fun render :: "jsval \<Rightarrow> string" where
  "render Undefined = ''undefined''"
| "render Null = ''null''"
| "render (Bool b) = (if b then ''true'' else ''false'')"
| "render (Num n) = show_nat (nat \<lfloor>n\<rfloor>)"
| "render (Str s) = quote s"
| "render (Arr xs) = ''['' @ join_with '','' (map render xs) @ '']''"
| "render (Obj kv) =
     ''{'' @ join_with '','' (map (\<lambda>(k, v). quote k @ '':'' @ render v) kv) @ ''}''"

definition table_env :: "(string \<times> jsval) list \<Rightarrow> js_env" where
  "table_env table = \<lparr>json_parse = map_of table, json_stringify = render, date_now = 0\<rparr>"

section \<open>Scenario C: an Anthropic stream read by an OpenAI client\<close>

text \<open>
  The three events of the scenario as they are on the wire, the values \<open>JSON.parse\<close>
  gives for their payloads, and the expressions \<open>choices[0].delta.content\<close> and
  \<open>choices[0].finish_reason\<close> with which a client reads a chunk.
\<close>

definition delta_payload :: "string \<Rightarrow> string" where
  "delta_payload t =
     ''{'' @ quote ''type'' @ '':'' @ quote ''content_block_delta'' @ '','' @
     quote ''index'' @ '':0,'' @
     quote ''delta'' @ '':{'' @ quote ''type'' @ '':'' @ quote ''text_delta'' @ '','' @
     quote ''text'' @ '':'' @ quote t @ ''}}''"

definition delta_event :: "string \<Rightarrow> jsval" where
  "delta_event t =
     Obj [(''type'', Str ''content_block_delta''),
          (''index'', Num 0),
          (''delta'', Obj [(''type'', Str ''text_delta''), (''text'', Str t)])]"

definition stop_payload :: string where
  "stop_payload = ''{'' @ quote ''type'' @ '':'' @ quote ''message_stop'' @ ''}''"

definition stop_event :: jsval where
  "stop_event = Obj [(''type'', Str ''message_stop'')]"

definition scenario_c_lines :: "string list" where
  "scenario_c_lines =
     [''event: content_block_delta'', ''data: '' @ delta_payload ''He'', [],
      ''event: content_block_delta'', ''data: '' @ delta_payload ''llo'', [],
      ''event: message_stop'', ''data: '' @ stop_payload, []]"

definition scenario_c_stream :: string where
  "scenario_c_stream = concat (map (\<lambda>l. l @ [nl]) scenario_c_lines)"

definition choice0 :: "jsval \<Rightarrow> jsval result" where
  "choice0 payload = and_then (get_prop payload ''choices'') elem0"

definition delta_content :: "jsval \<Rightarrow> jsval result" where
  "delta_content payload =
     and_then (choice0 payload) (\<lambda>choice.
     and_then (get_prop choice ''delta'') (\<lambda>delta. get_prop delta ''content''))"

definition finish_reason :: "jsval \<Rightarrow> jsval result" where
  "finish_reason payload =
     and_then (choice0 payload) (\<lambda>choice. get_prop choice ''finish_reason'')"

definition openai_chunk :: "nat \<Rightarrow> jsval \<Rightarrow> jsval" where
  "openai_chunk now choice =
     Obj [(''id'', Str []),
          (''object'', Str ''chat.completion.chunk''),
          (''created'', now_seconds now),
          (''model'', Str []),
          (''choices'', Arr [choice])]"

definition scenario_c_table :: "(string \<times> jsval) list" where
  "scenario_c_table =
     [(delta_payload ''He'', delta_event ''He''),
      (delta_payload ''llo'', delta_event ''llo''),
      (stop_payload, stop_event)]"

section \<open>Example values and readers of results\<close>

definition idle_chunk :: jsval where
  "idle_chunk = openai_chunk 0
     (Obj [(''index'', Num 0), (''delta'', Obj []), (''finish_reason'', Null)])"

fun token_count :: "jsval \<Rightarrow> bool" where
  "token_count Undefined = True"
| "token_count Null = True"
| "token_count (Num n) = True"
| "token_count v = False"

fun is_obj :: "jsval \<Rightarrow> bool" where
  "is_obj (Obj kv) = True"
| "is_obj v = False"

fun count_of :: "jsval \<Rightarrow> rat" where
  "count_of (Num n) = n"
| "count_of v = 0"

definition response_usage :: "jsval \<Rightarrow> jsval result" where
  "response_usage response = get_prop response ''usage''"

definition usage_field :: "string \<Rightarrow> jsval \<Rightarrow> jsval result" where
  "usage_field k response = and_then (get_prop response ''usage'') (\<lambda>usage. get_prop usage k)"

definition inconsistent_openai_response :: jsval where
  "inconsistent_openai_response =
     Obj [(''id'', Str ''chatcmpl-1''),
          (''choices'', Arr []),
          (''usage'', Obj [(''prompt_tokens'', Num 1),
                           (''completion_tokens'', Num 2),
                           (''total_tokens'', Num 5)])]"

definition openai_response_without_usage :: jsval where
  "openai_response_without_usage = Obj [(''id'', Str ''chatcmpl-2''), (''choices'', Arr [])]"

definition anthropic_scenario_b :: jsval where
  "anthropic_scenario_b =
     Obj [(''id'', Str ''msg_1''),
          (''content'', Arr [Obj [(''type'', Str ''text''), (''text'', Str ''Hi'')]]),
          (''stop_reason'', Str ''end_turn''),
          (''usage'', Obj [(''input_tokens'', Num 10), (''output_tokens'', Num 5)])]"

definition gemini_reply :: jsval where
  "gemini_reply =
     Obj [(''candidates'', Arr
        [Obj [(''content'', Obj [(''parts'', Arr [Obj [(''text'', Str ''Hi'')]]),
                                 (''role'', Str ''model'')]),
              (''finishReason'', Str ''STOP'')]])]"

definition gemini_reply_ir :: "nat \<Rightarrow> jsval" where
  "gemini_reply_ir now =
     Obj [(''id'', Str (''gemini-'' @ show_nat now)),
          (''object'', Str ''chat.completion''),
          (''created'', now_seconds now),
          (''model'', Str ''gemini''),
          (''choices'', Arr
             [Obj [(''index'', Num 0),
                   (''message'', Obj [(''role'', Str ''assistant''), (''content'', Str ''Hi'')]),
                   (''finish_reason'', Str ''stop'')]]),
          (''usage'', Obj [(''prompt_tokens'', Num 0),
                           (''completion_tokens'', Num 0),
                           (''total_tokens'', Num 0)])]"

definition anthropic_without_stop_reason :: jsval where
  "anthropic_without_stop_reason =
     Obj [(''id'', Str ''msg_2''),
          (''content'', Arr [Obj [(''type'', Str ''text''), (''text'', Str ''Hi'')]]),
          (''usage'', Obj [(''input_tokens'', Num 3), (''output_tokens'', Num 1)])]"

definition ir_without_choices :: jsval where
  "ir_without_choices =
     Obj [(''id'', Str ''chatcmpl-3''),
          (''object'', Str ''chat.completion''),
          (''created'', Num 1700000000),
          (''model'', Str ''gpt-4''),
          (''choices'', Arr []),
          (''usage'', Obj [(''prompt_tokens'', Num 7),
                           (''completion_tokens'', Num 0),
                           (''total_tokens'', Num 7)])]"

definition ir_scenario_b :: jsval where
  "ir_scenario_b =
     Obj [(''id'', Str ''msg_1''),
          (''object'', Str ''chat.completion''),
          (''created'', Num 1700000000),
          (''model'', Str []),
          (''choices'', Arr
             [Obj [(''index'', Num 0),
                   (''message'', Obj [(''role'', Str ''assistant''), (''content'', Str ''Hi'')]),
                   (''finish_reason'', Str ''length'')]]),
          (''usage'', Obj [(''prompt_tokens'', Num 10),
                           (''completion_tokens'', Num 5),
                           (''total_tokens'', Num 15)])]"

definition he_chunk :: jsval where
  "he_chunk = openai_chunk 0
     (Obj [(''index'', Num 0), (''delta'', Obj [(''content'', Str ''He'')]),
           (''finish_reason'', Null)])"

definition stop_chunk :: jsval where
  "stop_chunk = openai_chunk 0
     (Obj [(''index'', Num 0), (''delta'', Obj []), (''finish_reason'', Str ''stop'')])"

section \<open>Vocabulary for requests\<close>

text \<open>
  Predicates on messages and content-parts, the results of cleaning and of marking a
  well-formed message, and the requests of the examples.
\<close>

definition has_role :: "string \<Rightarrow> jsval \<Rightarrow> bool" where
  "has_role r msg \<longleftrightarrow> opt_prop msg ''role'' = Str r"

definition content_parts :: "jsval \<Rightarrow> jsval list" where
  "content_parts msg = (case opt_prop msg ''content'' of Arr parts \<Rightarrow> parts | _ \<Rightarrow> [])"

definition well_formed_message :: "jsval \<Rightarrow> bool" where
  "well_formed_message msg \<longleftrightarrow> is_obj msg \<and> list_all is_obj (content_parts msg)"

definition carries_cache_control :: "jsval \<Rightarrow> bool" where
  "carries_cache_control part \<longleftrightarrow>
     (case part of Obj kv \<Rightarrow> map_of kv ''cache_control'' \<noteq> None | _ \<Rightarrow> False)"

definition annotated :: "jsval \<Rightarrow> bool" where
  "annotated msg \<longleftrightarrow> list_ex carries_cache_control (content_parts msg)"

definition cleaned_part :: "jsval \<Rightarrow> jsval" where
  "cleaned_part part = Obj (AList.delete ''cache_control'' (own_props part))"

definition cleaned_message :: "jsval \<Rightarrow> jsval" where
  "cleaned_message msg =
     (case opt_prop msg ''content'' of
        Arr parts \<Rightarrow> Obj (AList.update ''content'' (Arr (map cleaned_part parts)) (own_props msg))
      | _ \<Rightarrow> msg)"

definition marked_message :: "jsval \<Rightarrow> jsval" where
  "marked_message msg =
     (case opt_prop msg ''content'' of
        Str s \<Rightarrow>
          Obj (AList.update ''content''
                 (Arr [Obj [(''type'', Str ''text''), (''text'', Str s),
                            (''cache_control'', ephemeral)]])
                 (own_props msg))
      | Arr parts \<Rightarrow>
          Obj (AList.update ''content''
                 (Arr (if parts \<noteq> [] \<and> opt_prop (last parts) ''type'' = Str ''text''
                       then butlast parts @
                            [Obj (AList.update ''cache_control'' ephemeral (own_props (last parts)))]
                       else parts))
                 (own_props msg))
      | _ \<Rightarrow> msg)"

definition opt_in :: "http_request option \<Rightarrow> bool" where
  "opt_in originalRequest \<longleftrightarrow>
     (case originalRequest of
        None \<Rightarrow> False
      | Some req \<Rightarrow>
         (case headers_get req ''anthropic-beta'' of
            None \<Rightarrow> False
          | Some v \<Rightarrow> str_includes v ''prompt-caching''))"

definition claude_family :: "string \<Rightarrow> bool" where
  "claude_family model \<longleftrightarrow>
     str_includes (map lower_char model) ''claude'' \<or>
     str_includes (map lower_char model) ''anthropic''"

definition last_user :: "jsval list \<Rightarrow> nat \<Rightarrow> bool" where
  "last_user ms i \<longleftrightarrow>
     i < length ms \<and> has_role ''user'' (ms ! i) \<and>
     list_all (\<lambda>m. \<not> has_role ''user'' m) (drop (Suc i) ms)"

definition beta_request :: http_request where
  "beta_request = \<lparr>headers_get = map_of [(''anthropic-beta'', ''prompt-caching-2024-07-31'')]\<rparr>"

definition cached_part :: "string \<Rightarrow> jsval" where
  "cached_part t = Obj [(''type'', Str ''text''), (''text'', Str t), (''cache_control'', ephemeral)]"

definition claude_messages :: "jsval list" where
  "claude_messages =
     [Obj [(''role'', Str ''user''), (''content'', Arr [cached_part ''Hi''])],
      Obj [(''role'', Str ''assistant''), (''content'', Str ''Hello'')],
      Obj [(''role'', Str ''user''), (''content'', Str ''Bye'')]]"

definition ir_request :: "string \<Rightarrow> jsval list \<Rightarrow> jsval" where
  "ir_request model messages =
     Obj [(''messages'', Arr messages),
          (''model'', Str model),
          (''max_tokens'', Num 1000),
          (''temperature'', Num (7 / 10)),
          (''stream'', Bool False)]"

definition tool_result_messages :: "jsval list" where
  "tool_result_messages =
     [Obj [(''role'', Str ''user''),
           (''content'', Arr [Obj [(''type'', Str ''tool_result''),
                                   (''tool_use_id'', Str ''toolu_1''),
                                   (''content'', Str ''42'')]])]]"

definition claude_messages_out :: "jsval list" where
  "claude_messages_out =
     [Obj [(''role'', Str ''user''),
           (''content'', Arr [Obj [(''type'', Str ''text''), (''text'', Str ''Hi'')]])],
      Obj [(''role'', Str ''assistant''), (''content'', Str ''Hello'')],
      Obj [(''role'', Str ''user''), (''content'', Arr [cached_part ''Bye''])]]"

definition two_system_messages :: "jsval list" where
  "two_system_messages =
     [Obj [(''role'', Str ''system''), (''content'', Str ''A'')],
      Obj [(''role'', Str ''user''), (''content'', Str ''Hi'')],
      Obj [(''role'', Str ''system''), (''content'', Str ''B'')]]"

text \<open>\<open>to_ir(from_ir(r, P), P)\<close>, outside of any HTTP request and platform.\<close>

definition round_trip :: "jsval \<Rightarrow> string \<Rightarrow> jsval result" where
  "round_trip r protocol =
     and_then (fromStandardFormat r protocol None None)
       (\<lambda>wire. toStandardFormat wire protocol)"

definition zero_temperature_request :: jsval where
  "zero_temperature_request =
     Obj [(''messages'', Arr [Obj [(''role'', Str ''user''), (''content'', Str ''Hello'')]]),
          (''model'', Str ''gpt-4''),
          (''max_tokens'', Num 1000),
          (''temperature'', Num 0),
          (''stream'', Bool False)]"





section \<open>Properties of the reframer\<close>

lemma split_nl_nonempty: "split_nl s \<noteq> []"
  by (induction s) (auto split: list.splits)

lemma split_nl_append:
  "split_nl (a @ b) = butlast (split_nl a) @ split_nl (last (split_nl a) @ b)"
proof (induction a)
  case Nil
  then show ?case by simp
next
  case (Cons c a)
  show ?case
  proof (cases "c = nl")
    case True
    then show ?thesis using Cons split_nl_nonempty[of a] by simp
  next
    case False
    obtain l ls where ls: "split_nl a = l # ls"
      using split_nl_nonempty[of a] by (cases "split_nl a") auto
    show ?thesis
    proof (cases ls)
      case Nil
      then show ?thesis using False ls Cons by simp
    next
      case (Cons l' ls')
      then show ?thesis using False ls Cons.IH
        by (simp split: list.splits)
    qed
  qed
qed

lemma last_split_nl_no_nl: "nl \<notin> set (last (split_nl s))"
  by (induction s) (auto split: list.splits simp: split_nl_nonempty)

lemma chunk_invariant_empty: "chunk_invariant dec \<Longrightarrow> dec s [] = ([], s)"
  by (simp add: chunk_invariant_def)

lemma chunk_invariant_append:
  "chunk_invariant dec \<Longrightarrow>
   dec s (a @ b) = (fst (dec s a) @ fst (dec (snd (dec s a)) b), snd (dec (snd (dec s a)) b))"
  unfolding chunk_invariant_def by blast

lemma run_reads_snoc:
  "run_reads env dec d0 src tgt (reads @ [r]) =
   on_read env dec src tgt (run_reads env dec d0 src tgt reads) r"
  by (simp add: run_reads_def)

text \<open>
  The loop invariant: after any number of reads the buffer is what follows the last
  newline of the text decoded so far, and one write was made for each line before it.
\<close>

lemma run_reads_state:
  assumes "chunk_invariant dec"
  shows "run_reads env dec d0 src tgt reads =
     \<lparr>buffer = last (split_nl (fst (dec d0 (concat reads)))),
      decoder_state = snd (dec d0 (concat reads)),
      written = map (\<lambda>line. processStreamLine env line src tgt)
                  (butlast (split_nl (fst (dec d0 (concat reads)))))\<rparr>"
proof (induction reads rule: rev_induct)
  case Nil
  show ?case
    by (simp add: run_reads_def chunk_invariant_empty[OF assms])
next
  case (snoc r reads)
  let ?T = "fst (dec d0 (concat reads))"
  let ?s = "snd (dec d0 (concat reads))"
  have dec_all: "dec d0 (concat (reads @ [r])) = (?T @ fst (dec ?s r), snd (dec ?s r))"
    using chunk_invariant_append[OF assms, of d0 "concat reads" r] by simp
  have split: "split_nl (?T @ fst (dec ?s r)) =
      butlast (split_nl ?T) @ split_nl (last (split_nl ?T) @ fst (dec ?s r))"
    by (rule split_nl_append)
  have ne: "split_nl (last (split_nl ?T) @ fst (dec ?s r)) \<noteq> []"
    by (rule split_nl_nonempty)
  show ?case
    unfolding run_reads_snoc snoc.IH dec_all
    by (simp add: on_read_def Let_def split_beta split ne butlast_append)
qed

lemma chunk_invariant_ascii: "chunk_invariant ascii_decoder"
  by (simp add: chunk_invariant_def ascii_decoder_def)

lemma char_byte_char: "char_of (unat (of_nat (of_char c) :: byte)) = c"
proof -
  have "(of_char c :: nat) < 256" by (rule nat_of_char_less_256)
  then have "unat (of_nat (of_char c) :: byte) = of_char c"
    by (simp add: unat_of_nat)
  then show ?thesis by simp
qed

lemma ascii_decoder_bytes_of: "ascii_decoder s (bytes_of t) = (t, s)"
  by (simp add: ascii_decoder_def bytes_of_def char_byte_char o_def)

lemma bytes_of_append: "bytes_of (a @ b) = bytes_of a @ bytes_of b"
  by (simp add: bytes_of_def)

text \<open>
  C1. Feeding the byte stream in fragments, however small, gives the same writes in the
  same order as feeding it as one block; so does feeding it one byte at a time. After
  each read the buffer holds the text after the last newline, it contains no newline,
  and exactly the complete lines before it have been written; the buffer is written
  only by the flush at the end of the data.
\<close>

theorem reframer_fragmentation:
  assumes "chunk_invariant dec"
  shows "processStreamData env dec d0 reads fin src tgt =
           processStreamData env dec d0 [concat reads] fin src tgt
       \<and> processStreamData env dec d0 (map (\<lambda>b. [b]) bytes) fin src tgt =
           processStreamData env dec d0 [bytes] fin src tgt
       \<and> buffer (run_reads env dec d0 src tgt reads) =
           last (split_nl (fst (dec d0 (concat reads))))
       \<and> nl \<notin> set (buffer (run_reads env dec d0 src tgt reads))
       \<and> written (run_reads env dec d0 src tgt reads) =
           map (\<lambda>line. processStreamLine env line src tgt)
             (butlast (split_nl (fst (dec d0 (concat reads)))))"
proof -
  have c: "concat (map (\<lambda>b. [b]) bytes) = bytes"
    by (induction bytes) simp_all
  have a: "run_reads env dec d0 src tgt reads = run_reads env dec d0 src tgt [concat reads]"
    by (simp add: run_reads_state[OF assms])
  have b: "run_reads env dec d0 src tgt (map (\<lambda>b. [b]) bytes) =
      run_reads env dec d0 src tgt [bytes]"
    by (simp add: run_reads_state[OF assms] c)
  show ?thesis
    by (simp add: processStreamData_def a b)
       (simp add: run_reads_state[OF assms] last_split_nl_no_nl)
qed

theorem reframer_fragmentation_witness:
  "chunk_invariant ascii_decoder
   \<and> processStreamData (table_env []) ascii_decoder ()
        [bytes_of ''da'', bytes_of (''ta: [DONE]'' @ [nl, nl] @ ''id: 7'')] EndOfData
        ''anthropic'' ''openai'' =
     processStreamData (table_env []) ascii_decoder ()
        [concat [bytes_of ''da'', bytes_of (''ta: [DONE]'' @ [nl, nl] @ ''id: 7'')]] EndOfData
        ''anthropic'' ''openai''
   \<and> processStreamData (table_env []) ascii_decoder ()
        [bytes_of ''da'', bytes_of (''ta: [DONE]'' @ [nl, nl] @ ''id: 7'')] EndOfData
        ''anthropic'' ''openai'' = [''data: [DONE]'' @ [nl, nl], [nl], ''id: 7'' @ [nl]]
   \<and> buffer (run_reads (table_env []) ascii_decoder () ''anthropic'' ''openai''
        [bytes_of ''da'', bytes_of (''ta: [DONE]'' @ [nl, nl] @ ''id: 7'')]) = ''id: 7''"
proof -
  have decoded: "fst (ascii_decoder () (concat [bytes_of ''da'', bytes_of (''ta: [DONE]'' @ [nl, nl] @ ''id: 7'')]))
     = ''data: [DONE]'' @ [nl, nl] @ ''id: 7''"
    by (simp add: ascii_decoder_bytes_of bytes_of_append[symmetric] del: append.simps)
  have sp: "split_nl (''data: [DONE]'' @ [nl, nl] @ ''id: 7'') = [''data: [DONE]'', [], ''id: 7'']"
    by (simp add: nl_def)
  note inst = reframer_fragmentation[OF chunk_invariant_ascii, of "table_env []" "()"
        "[bytes_of ''da'', bytes_of (''ta: [DONE]'' @ [nl, nl] @ ''id: 7'')]" EndOfData
        "''anthropic''" "''openai''" "[]"]
  have out: "processStreamData (table_env []) ascii_decoder ()
        [concat [bytes_of ''da'', bytes_of (''ta: [DONE]'' @ [nl, nl] @ ''id: 7'')]] EndOfData
        ''anthropic'' ''openai'' = [''data: [DONE]'' @ [nl, nl], [nl], ''id: 7'' @ [nl]]"
    apply (simp add: processStreamData_def run_reads_def on_read_def ascii_decoder_bytes_of bytes_of_append[symmetric] del: append.simps)
    apply (simp add: nl_def processStreamLine_def js_trim_def js_space_def)
    done
  show ?thesis
    using inst chunk_invariant_ascii out decoded sp by simp
qed

lemma split_nl_line: "nl \<notin> set l \<Longrightarrow> split_nl (l @ nl # rest) = l # split_nl rest"
  by (induction l) (auto split: list.splits)

lemma split_nl_lines:
  "\<forall>l \<in> set ls. nl \<notin> set l \<Longrightarrow> split_nl (concat (map (\<lambda>l. l @ [nl]) ls)) = ls @ [[]]"
  by (induction ls) (simp_all add: split_nl_line)

lemma js_trim_empty_iff: "js_trim s = [] \<longleftrightarrow> (\<forall>c \<in> set s. js_space c)"
proof
  assume "js_trim s = []"
  then have "dropWhile js_space (rev (dropWhile js_space s)) = []"
    by (simp add: js_trim_def)
  then have "\<forall>c \<in> set (dropWhile js_space s). js_space c"
    by (simp add: dropWhile_eq_Nil_conv)
  then have "dropWhile js_space s = []"
    by (metis dropWhile_eq_Nil_conv hd_dropWhile list.set_sel(1))
  then show "\<forall>c \<in> set s. js_space c"
    by (simp add: dropWhile_eq_Nil_conv)
next
  assume "\<forall>c \<in> set s. js_space c"
  then have h: "dropWhile js_space s = []"
    by (simp add: dropWhile_eq_Nil_conv)
  show "js_trim s = []"
    by (simp only: js_trim_def h rev.simps dropWhile.simps)
qed

lemma data_line_not_blank: "prefix ''data: '' line \<Longrightarrow> js_trim line \<noteq> []"
proof -
  assume "prefix ''data: '' line"
  then have "CHR ''d'' \<in> set line"
    by (auto simp: prefix_def)
  moreover have "\<not> js_space CHR ''d''"
    by (simp add: js_space_def)
  ultimately show ?thesis
    by (auto simp: js_trim_empty_iff)
qed


lemma stream_of_lines:
  assumes "chunk_invariant dec"
    and "fst (dec d0 (concat reads)) = concat (map (\<lambda>l. l @ [nl]) ls)"
    and "\<forall>l \<in> set ls. nl \<notin> set l"
  shows "processStreamData env dec d0 reads EndOfData src tgt =
         map (\<lambda>line. processStreamLine env line src tgt) ls"
  by (simp add: processStreamData_def run_reads_state[OF assms(1)] assms(2) 
        split_nl_lines[OF assms(3)])

lemma scenario_c_lines_no_nl: "\<forall>l \<in> set scenario_c_lines. nl \<notin> set l"
  by (simp add: scenario_c_lines_def delta_payload_def stop_payload_def quote_def nl_def)

lemma convert_delta:
  "convertStreamChunk now (delta_event t) ''anthropic'' ''openai'' =
   Inr (openai_chunk now (Obj [(''index'', Num 0),
                           (''delta'', Obj [(''content'', js_or (Str t) (Str []))]),
                           (''finish_reason'', Null)]))"
  by (simp add: convertStreamChunk_def streamChunkToStandardFormat_def
      streamChunkFromStandardFormat_def delta_event_def and_then_def js_or_def openai_chunk_def)

lemma convert_stop:
  "convertStreamChunk now stop_event ''anthropic'' ''openai'' =
   Inr (openai_chunk now (Obj [(''index'', Num 0),
                           (''delta'', Obj []),
                           (''finish_reason'', Str ''stop'')]))"
  by (simp add: convertStreamChunk_def streamChunkToStandardFormat_def
      streamChunkFromStandardFormat_def stop_event_def and_then_def js_or_def openai_chunk_def)

lemma data_line_converted:
  assumes "drop 6 line \<noteq> ''[DONE]''"
    and "prefix ''data: '' line"
    and "js_trim (drop 6 line) \<noteq> []"
    and "json_parse env (drop 6 line) = Some v"
    and "convertStreamChunk (date_now env) v src tgt = Inr c"
  shows "processStreamLine env line src tgt = ''data: '' @ json_stringify env c @ [nl, nl]"
  using assms data_line_not_blank[OF assms(2)]
  by (simp add: processStreamLine_def)

lemma other_line_forwarded:
  assumes "js_trim line \<noteq> []" and "\<not> prefix ''data: '' line"
  shows "processStreamLine env line src tgt = line @ [nl]"
  using assms by (simp add: processStreamLine_def)

lemma blank_line: "processStreamLine env [] src tgt = [nl]"
  by (simp add: processStreamLine_def js_trim_def)




text \<open>
  C7. The Anthropic stream of scenario C (content delta "He", content delta "llo",
  message stop), translated for an OpenAI client, gives exactly three \<open>data:\<close> lines
  among its writes. Their payloads are OpenAI chunks whose \<open>choices[0].delta.content\<close>
  is "He", "llo" and absent (the delta is the empty object), and the third has
  \<open>finish_reason\<close> "stop".
\<close>

theorem scenario_c_anthropic_to_openai:
  assumes "chunk_invariant dec"
    and "fst (dec d0 (concat reads)) = scenario_c_stream"
    and "json_parse env (delta_payload ''He'') = Some (delta_event ''He'')"
    and "json_parse env (delta_payload ''llo'') = Some (delta_event ''llo'')"
    and "json_parse env stop_payload = Some stop_event"
  shows "processStreamData env dec d0 reads EndOfData ''anthropic'' ''openai'' =
         [''event: content_block_delta'' @ [nl],
          ''data: '' @ json_stringify env (openai_chunk (date_now env)
             (Obj [(''index'', Num 0), (''delta'', Obj [(''content'', Str ''He'')]),
                   (''finish_reason'', Null)])) @ [nl, nl],
          [nl],
          ''event: content_block_delta'' @ [nl],
          ''data: '' @ json_stringify env (openai_chunk (date_now env)
             (Obj [(''index'', Num 0), (''delta'', Obj [(''content'', Str ''llo'')]),
                   (''finish_reason'', Null)])) @ [nl, nl],
          [nl],
          ''event: message_stop'' @ [nl],
          ''data: '' @ json_stringify env (openai_chunk (date_now env)
             (Obj [(''index'', Num 0), (''delta'', Obj []),
                   (''finish_reason'', Str ''stop'')])) @ [nl, nl],
          [nl]]
     \<and> delta_content (openai_chunk (date_now env)
             (Obj [(''index'', Num 0), (''delta'', Obj [(''content'', Str ''He'')]),
                   (''finish_reason'', Null)])) = Inr (Str ''He'')
     \<and> delta_content (openai_chunk (date_now env)
             (Obj [(''index'', Num 0), (''delta'', Obj [(''content'', Str ''llo'')]),
                   (''finish_reason'', Null)])) = Inr (Str ''llo'')
     \<and> delta_content (openai_chunk (date_now env)
             (Obj [(''index'', Num 0), (''delta'', Obj []),
                   (''finish_reason'', Str ''stop'')])) = Inr Undefined
     \<and> finish_reason (openai_chunk (date_now env)
             (Obj [(''index'', Num 0), (''delta'', Obj []),
                   (''finish_reason'', Str ''stop'')])) = Inr (Str ''stop'')"
proof -
  have ev: "processStreamLine env ''event: content_block_delta'' ''anthropic'' ''openai''
      = ''event: content_block_delta'' @ [nl]"
    by (rule other_line_forwarded) (simp_all add: js_trim_def js_space_def)
  have ev_stop: "processStreamLine env ''event: message_stop'' ''anthropic'' ''openai''
      = ''event: message_stop'' @ [nl]"
    by (rule other_line_forwarded) (simp_all add: js_trim_def js_space_def)
  have payload: "drop 6 (''data: '' @ p) = p" for p :: string
    by simp
  have d1: "processStreamLine env (''data: '' @ delta_payload ''He'') ''anthropic'' ''openai''
      = ''data: '' @ json_stringify env (openai_chunk (date_now env)
            (Obj [(''index'', Num 0), (''delta'', Obj [(''content'', Str ''He'')]),
                  (''finish_reason'', Null)])) @ [nl, nl]"
    apply (rule data_line_converted[where v = "delta_event ''He''"])
        apply (simp_all only: payload assms(3))
       apply (simp add: delta_payload_def quote_def)
      apply simp
     apply (simp add: delta_payload_def quote_def js_trim_def js_space_def)
    apply (simp add: convert_delta js_or_def)
    done
  have d2: "processStreamLine env (''data: '' @ delta_payload ''llo'') ''anthropic'' ''openai''
      = ''data: '' @ json_stringify env (openai_chunk (date_now env)
            (Obj [(''index'', Num 0), (''delta'', Obj [(''content'', Str ''llo'')]),
                  (''finish_reason'', Null)])) @ [nl, nl]"
    apply (rule data_line_converted[where v = "delta_event ''llo''"])
        apply (simp_all only: payload assms(4))
       apply (simp add: delta_payload_def quote_def)
      apply simp
     apply (simp add: delta_payload_def quote_def js_trim_def js_space_def)
    apply (simp add: convert_delta js_or_def)
    done
  have d3: "processStreamLine env (''data: '' @ stop_payload) ''anthropic'' ''openai''
      = ''data: '' @ json_stringify env (openai_chunk (date_now env)
            (Obj [(''index'', Num 0), (''delta'', Obj []), (''finish_reason'', Str ''stop'')]))
        @ [nl, nl]"
    apply (rule data_line_converted[where v = stop_event])
        apply (simp_all only: payload assms(5))
       apply (simp add: stop_payload_def quote_def)
      apply simp
     apply (simp add: stop_payload_def quote_def js_trim_def js_space_def)
    apply (simp add: convert_stop)
    done
  have out: "processStreamData env dec d0 reads EndOfData ''anthropic'' ''openai'' =
      map (\<lambda>line. processStreamLine env line ''anthropic'' ''openai'') scenario_c_lines"
    by (rule stream_of_lines[OF assms(1) _ scenario_c_lines_no_nl])
       (simp add: assms(2) scenario_c_stream_def)
  show ?thesis
    unfolding out
    by (simp add: scenario_c_lines_def ev ev_stop d1 d2 d3 blank_line
        delta_content_def finish_reason_def choice0_def openai_chunk_def and_then_def
        del: append.simps)
qed


theorem scenario_c_anthropic_to_openai_witness:
  "chunk_invariant ascii_decoder
   \<and> fst (ascii_decoder () (concat [bytes_of (take 40 scenario_c_stream),
                                      bytes_of (drop 40 scenario_c_stream)])) = scenario_c_stream
   \<and> json_parse (table_env scenario_c_table) (delta_payload ''He'') = Some (delta_event ''He'')
   \<and> json_parse (table_env scenario_c_table) (delta_payload ''llo'') = Some (delta_event ''llo'')
   \<and> json_parse (table_env scenario_c_table) stop_payload = Some stop_event
   \<and> processStreamData (table_env scenario_c_table) ascii_decoder ()
        [bytes_of (take 40 scenario_c_stream), bytes_of (drop 40 scenario_c_stream)]
        EndOfData ''anthropic'' ''openai'' =
         [''event: content_block_delta'' @ [nl],
          ''data: '' @ render (openai_chunk 0
             (Obj [(''index'', Num 0), (''delta'', Obj [(''content'', Str ''He'')]),
                   (''finish_reason'', Null)])) @ [nl, nl],
          [nl],
          ''event: content_block_delta'' @ [nl],
          ''data: '' @ render (openai_chunk 0
             (Obj [(''index'', Num 0), (''delta'', Obj [(''content'', Str ''llo'')]),
                   (''finish_reason'', Null)])) @ [nl, nl],
          [nl],
          ''event: message_stop'' @ [nl],
          ''data: '' @ render (openai_chunk 0
             (Obj [(''index'', Num 0), (''delta'', Obj []),
                   (''finish_reason'', Str ''stop'')])) @ [nl, nl],
          [nl]]"
proof -
  have h2: "fst (ascii_decoder () (concat [bytes_of (take 40 scenario_c_stream),
      bytes_of (drop 40 scenario_c_stream)])) = scenario_c_stream"
    by (simp add: bytes_of_append[symmetric] ascii_decoder_bytes_of)
  have h3: "json_parse (table_env scenario_c_table) (delta_payload ''He'') = Some (delta_event ''He'')"
    by (simp add: table_env_def scenario_c_table_def)
  have h4: "json_parse (table_env scenario_c_table) (delta_payload ''llo'') = Some (delta_event ''llo'')"
    by (simp add: table_env_def scenario_c_table_def delta_payload_def quote_def)
  have h5: "json_parse (table_env scenario_c_table) stop_payload = Some stop_event"
    by (simp add: table_env_def scenario_c_table_def delta_payload_def stop_payload_def quote_def)
  have e: "json_stringify (table_env scenario_c_table) = render"
      "date_now (table_env scenario_c_table) = 0"
    by (simp_all add: table_env_def)
  show ?thesis
    using scenario_c_anthropic_to_openai[OF chunk_invariant_ascii h2 h3 h4 h5]
      chunk_invariant_ascii h2 h3 h4 h5
    unfolding e by blast
qed


section \<open>Stream chunks and responses\<close>

lemma truthy_opt_prop: "truthy (opt_prop v k) \<Longrightarrow> get_prop v k = Inr (opt_prop v k)"
  by (cases v) (auto split: option.splits)

text \<open>
  C8, as the code has it. For an IR chunk whose \<open>choices[0]\<close> can be read: when
  \<open>choices[0].delta.content\<close> is truthy (a non-empty text) the chunk becomes a
  \<open>content_block_delta\<close> event that carries this text; when there is no such content and
  \<open>finish_reason\<close> is truthy it becomes a \<open>message_stop\<close> event; when there is neither, the
  function returns the IR chunk itself, unchanged, and so does \<open>convertStreamChunk\<close>: the
  chunk is then written as a \<open>data:\<close> event like any other.
\<close>

theorem ir_chunk_to_anthropic_event:
  assumes "get_prop standard ''choices'' = Inr choices"
    and "elem0 choices = Inr choice"
  shows "(truthy (opt_prop (opt_prop choice ''delta'') ''content'') \<longrightarrow>
            streamChunkFromStandardFormat standard ''anthropic'' =
              Inr (Obj [(''type'', Str ''content_block_delta''),
                        (''index'', Num 0),
                        (''delta'', Obj [(''type'', Str ''text_delta''),
                                         (''text'', opt_prop (opt_prop choice ''delta'') ''content'')])]))
       \<and> (\<not> truthy (opt_prop (opt_prop choice ''delta'') ''content'') \<and>
          truthy (opt_prop choice ''finish_reason'') \<longrightarrow>
            streamChunkFromStandardFormat standard ''anthropic'' =
              Inr (Obj [(''type'', Str ''message_stop'')]))
       \<and> (\<not> truthy (opt_prop (opt_prop choice ''delta'') ''content'') \<and>
          \<not> truthy (opt_prop choice ''finish_reason'') \<longrightarrow>
            streamChunkFromStandardFormat standard ''anthropic'' = Inr standard
          \<and> convertStreamChunk now standard ''openai'' ''anthropic'' = Inr standard)"
proof -
  have content: "truthy (opt_prop (opt_prop choice ''delta'') ''content'') \<Longrightarrow>
      and_then (get_prop choice ''delta'') (\<lambda>delta. and_then (get_prop delta ''content'') f)
      = f (opt_prop (opt_prop choice ''delta'') ''content'')" for f :: "jsval \<Rightarrow> jsval result"
  proof -
    assume t: "truthy (opt_prop (opt_prop choice ''delta'') ''content'')"
    then have "truthy (opt_prop choice ''delta'')"
      by (cases "opt_prop choice ''delta''") auto
    then have d: "get_prop choice ''delta'' = Inr (opt_prop choice ''delta'')"
      by (rule truthy_opt_prop)
    show ?thesis
      by (simp add: d truthy_opt_prop[OF t] and_then_def)
  qed
  have id: "get_prop standard ''id'' = Inr (opt_prop standard ''id'')" 
    "get_prop standard ''created'' = Inr (opt_prop standard ''created'')"
    "get_prop standard ''model'' = Inr (opt_prop standard ''model'')"
    using assms(1) by (cases standard; simp)+
  show ?thesis
    using assms content
    by (simp add: streamChunkFromStandardFormat_def convertStreamChunk_def
        streamChunkToStandardFormat_def and_then_def id)
qed

text \<open>
  C8 as stated fails: a chunk with an empty delta and no finish reason does produce an
  output event. The conversion returns the chunk, and \<open>processStreamLine\<close> writes it.
\<close>

theorem ir_chunk_to_anthropic_event_counterexample:
  "streamChunkFromStandardFormat idle_chunk ''anthropic'' = Inr idle_chunk
   \<and> processStreamLine (table_env [(render idle_chunk, idle_chunk)])
        (''data: '' @ render idle_chunk) ''openai'' ''anthropic''
      = ''data: '' @ render idle_chunk @ [nl, nl]"
proof -
  have a: "streamChunkFromStandardFormat idle_chunk ''anthropic'' = Inr idle_chunk"
    by (simp add: streamChunkFromStandardFormat_def idle_chunk_def openai_chunk_def and_then_def)
  have t: "streamChunkToStandardFormat 0 idle_chunk ''openai'' = Inr idle_chunk"
    by (simp add: streamChunkToStandardFormat_def idle_chunk_def openai_chunk_def and_then_def)
  have c: "convertStreamChunk 0 idle_chunk ''openai'' ''anthropic'' = Inr idle_chunk"
    by (simp add: convertStreamChunk_def a t and_then_def)
  have r: "render idle_chunk = ''{'' @ quote ''id'' @ '':'' @ quote [] @ '','' @ quote ''object'' @ '':''
      @ quote ''chat.completion.chunk'' @ '','' @ quote ''created'' @ '':0,'' @ quote ''model''
      @ '':'' @ quote [] @ '','' @ quote ''choices'' @ '':[{'' @ quote ''index'' @ '':0,''
      @ quote ''delta'' @ '':{},'' @ quote ''finish_reason'' @ '':null}]}''"
    by (simp add: idle_chunk_def openai_chunk_def now_seconds_def show_nat.simps)
  have b: "processStreamLine (table_env [(render idle_chunk, idle_chunk)])
        (''data: '' @ render idle_chunk) ''openai'' ''anthropic''
      = ''data: '' @ json_stringify (table_env [(render idle_chunk, idle_chunk)]) idle_chunk @ [nl, nl]"
    apply (rule data_line_converted[where v = idle_chunk])
        apply (simp_all add: table_env_def c)
     apply (simp_all add: r quote_def js_trim_def js_space_def)
    done
  show ?thesis using a b by (simp add: table_env_def)
qed

lemma token_count_or: "token_count v \<Longrightarrow> js_or v (Num 0) = Num (count_of v)"
  by (cases v) (auto simp: js_or_def)

lemma responseToStandardFormat_anthropic:
  assumes "is_obj response"
    and "token_count (opt_prop (opt_prop response ''usage'') ''input_tokens'')"
    and "token_count (opt_prop (opt_prop response ''usage'') ''output_tokens'')"
  shows "responseToStandardFormat now response ''anthropic'' =
       Inr (Obj [(''id'', js_or (opt_prop response ''id'') (Str [])),
                 (''object'', Str ''chat.completion''),
                 (''created'', now_seconds now),
                 (''model'', js_or (opt_prop response ''model'') (Str [])),
                 (''choices'', Arr
                    [Obj [(''index'', Num 0),
                          (''message'',
                             Obj [(''role'', Str ''assistant''),
                                  (''content'',
                                     js_or (opt_prop (opt_elem0 (opt_prop response ''content'')) ''text'')
                                           (Str []))]),
                          (''finish_reason'', js_or (opt_prop response ''stop_reason'') (Str ''stop''))]]),
                 (''usage'', Obj
                    [(''prompt_tokens'',
                        Num (count_of (opt_prop (opt_prop response ''usage'') ''input_tokens''))),
                     (''completion_tokens'',
                        Num (count_of (opt_prop (opt_prop response ''usage'') ''output_tokens''))),
                     (''total_tokens'',
                        Num (count_of (opt_prop (opt_prop response ''usage'') ''input_tokens'') +
                             count_of (opt_prop (opt_prop response ''usage'') ''output_tokens'')))])])"
proof -
  obtain kv where r: "response = Obj kv"
    using assms(1) by (cases response) auto
  have g: "get_prop response k = Inr (opt_prop response k)" for k
    by (simp add: r)
  show ?thesis
    by (simp add: responseToStandardFormat_def and_then_def g js_add_def
        token_count_or[OF assms(2)] token_count_or[OF assms(3)])
qed

lemma responseToStandardFormat_gemini_usage:
  assumes "responseToStandardFormat now response ''gemini'' = Inr out"
  shows "get_prop out ''usage'' =
     Inr (Obj [(''prompt_tokens'', Num 0), (''completion_tokens'', Num 0), (''total_tokens'', Num 0)])"
  using assms
  by (auto simp: responseToStandardFormat_def and_then_def Let_def
      split: sum.splits if_splits)

text \<open>
  C4, as the code has it. For an Anthropic response (an object whose token counts are
  numbers or absent) the IR usage has \<open>prompt_tokens\<close> and \<open>completion_tokens\<close> equal to the
  reported counts, 0 for a count that is absent, and \<open>total_tokens\<close> equal to their sum.
  For a Gemini response that is converted all three fields are 0. An OpenAI-shaped
  response (formats \<open>openai\<close> and \<open>openrouter\<close>) is returned as it is: its usage is
  whatever the vendor sent, nothing is computed or checked.
\<close>

theorem usage_of_converted_response:
  assumes "is_obj anthropic_response"
    and "token_count (opt_prop (opt_prop anthropic_response ''usage'') ''input_tokens'')"
    and "token_count (opt_prop (opt_prop anthropic_response ''usage'') ''output_tokens'')"
    and "responseToStandardFormat now gemini_response ''gemini'' = Inr from_gemini"
  shows "and_then (responseToStandardFormat now anthropic_response ''anthropic'')
            (usage_field ''prompt_tokens'') =
           Inr (Num (count_of (opt_prop (opt_prop anthropic_response ''usage'') ''input_tokens'')))
       \<and> and_then (responseToStandardFormat now anthropic_response ''anthropic'')
            (usage_field ''completion_tokens'') =
           Inr (Num (count_of (opt_prop (opt_prop anthropic_response ''usage'') ''output_tokens'')))
       \<and> and_then (responseToStandardFormat now anthropic_response ''anthropic'')
            (usage_field ''total_tokens'') =
           Inr (Num (count_of (opt_prop (opt_prop anthropic_response ''usage'') ''input_tokens'') +
                     count_of (opt_prop (opt_prop anthropic_response ''usage'') ''output_tokens'')))
       \<and> usage_field ''prompt_tokens'' from_gemini = Inr (Num 0)
       \<and> usage_field ''completion_tokens'' from_gemini = Inr (Num 0)
       \<and> usage_field ''total_tokens'' from_gemini = Inr (Num 0)
       \<and> responseToStandardFormat now response ''openai'' = Inr response
       \<and> responseToStandardFormat now response ''openrouter'' = Inr response"
proof -
  have o: "responseToStandardFormat now response ''openai'' = Inr response"
      "responseToStandardFormat now response ''openrouter'' = Inr response"
    by (simp_all add: responseToStandardFormat_def)
  show ?thesis
    by (simp add: responseToStandardFormat_anthropic[OF assms(1-3)]
        responseToStandardFormat_gemini_usage[OF assms(4)] o usage_field_def and_then_def)
qed

text \<open>
  C4 as stated fails for OpenAI-shaped responses, which are passed through: a response
  that reports 1 + 2 tokens with a total of 5 keeps that total, and a response without
  \<open>usage\<close> becomes an IR response without \<open>usage\<close>, not one with three zeros.
\<close>

theorem usage_invariant_counterexample:
  "and_then (responseToStandardFormat 0 inconsistent_openai_response ''openai'')
      (usage_field ''prompt_tokens'') = Inr (Num 1)
   \<and> and_then (responseToStandardFormat 0 inconsistent_openai_response ''openai'')
      (usage_field ''completion_tokens'') = Inr (Num 2)
   \<and> and_then (responseToStandardFormat 0 inconsistent_openai_response ''openai'')
      (usage_field ''total_tokens'') = Inr (Num 5)
   \<and> (5 :: rat) \<noteq> 1 + 2
   \<and> and_then (responseToStandardFormat 0 openai_response_without_usage ''openai'')
      response_usage = Inr Undefined
   \<and> and_then (responseToStandardFormat 0 openai_response_without_usage ''openai'')
      (usage_field ''total_tokens'') = Inl TypeError"
  by (simp add: responseToStandardFormat_def inconsistent_openai_response_def
      openai_response_without_usage_def usage_field_def response_usage_def and_then_def)

lemma gemini_reply_converted:
  "responseToStandardFormat now gemini_reply ''gemini'' = Inr (gemini_reply_ir now)"
  by (simp add: responseToStandardFormat_def gemini_reply_def gemini_reply_ir_def and_then_def
      js_or_def lower_char_def)

theorem usage_of_converted_response_witness:
  "is_obj anthropic_scenario_b
   \<and> token_count (opt_prop (opt_prop anthropic_scenario_b ''usage'') ''input_tokens'')
   \<and> token_count (opt_prop (opt_prop anthropic_scenario_b ''usage'') ''output_tokens'')
   \<and> responseToStandardFormat 1700000000000 gemini_reply ''gemini''
       = Inr (gemini_reply_ir 1700000000000)
   \<and> and_then (responseToStandardFormat 1700000000000 anthropic_scenario_b ''anthropic'')
          (usage_field ''prompt_tokens'') = Inr (Num 10)
   \<and> and_then (responseToStandardFormat 1700000000000 anthropic_scenario_b ''anthropic'')
          (usage_field ''completion_tokens'') = Inr (Num 5)
   \<and> and_then (responseToStandardFormat 1700000000000 anthropic_scenario_b ''anthropic'')
          (usage_field ''total_tokens'') = Inr (Num 15)
   \<and> usage_field ''total_tokens'' (gemini_reply_ir 1700000000000) = Inr (Num 0)
   \<and> responseToStandardFormat 1700000000000 inconsistent_openai_response ''openai''
       = Inr inconsistent_openai_response"
proof -
  have h1: "is_obj anthropic_scenario_b"
    by (simp add: anthropic_scenario_b_def)
  have h2: "token_count (opt_prop (opt_prop anthropic_scenario_b ''usage'') ''input_tokens'')"
    by (simp add: anthropic_scenario_b_def)
  have h3: "token_count (opt_prop (opt_prop anthropic_scenario_b ''usage'') ''output_tokens'')"
    by (simp add: anthropic_scenario_b_def)
  have h4: "responseToStandardFormat 1700000000000 gemini_reply ''gemini''
       = Inr (gemini_reply_ir 1700000000000)"
    by (rule gemini_reply_converted)
  have v: "count_of (opt_prop (opt_prop anthropic_scenario_b ''usage'') ''input_tokens'') = 10"
      "count_of (opt_prop (opt_prop anthropic_scenario_b ''usage'') ''output_tokens'') = 5"
    by (simp_all add: anthropic_scenario_b_def)
  show ?thesis
    using usage_of_converted_response[OF h1 h2 h3 h4, of inconsistent_openai_response]
      h1 h2 h3 h4
    by (simp add: v)
qed

lemma responseFromStandardFormat_anthropic:
  assumes "get_prop standard ''choices'' = Inr choices"
    and "elem0 choices = Inr choice"
    and "get_prop standard ''usage'' = Inr usage"
    and "is_obj usage"
  shows "responseFromStandardFormat standard ''anthropic'' =
     Inr (Obj [(''id'', opt_prop standard ''id''),
               (''type'', Str ''message''),
               (''role'', Str ''assistant''),
               (''content'',
                  Arr [Obj [(''type'', Str ''text''),
                            (''text'',
                               js_or (opt_prop (opt_prop choice ''message'') ''content'')
                                     (Str []))]]),
               (''model'', opt_prop standard ''model''),
               (''stop_reason'', js_or (opt_prop choice ''finish_reason'') (Str ''end_turn'')),
               (''usage'', Obj [(''input_tokens'', opt_prop usage ''prompt_tokens''),
                                (''output_tokens'', opt_prop usage ''completion_tokens'')])])"
proof -
  have g: "get_prop standard k = Inr (opt_prop standard k)" for k
    using assms(1) by (cases standard) auto
  have u: "get_prop usage k = Inr (opt_prop usage k)" for k
    using assms(4) by (cases usage) auto
  show ?thesis
    using assms(1-3)
    by (simp add: responseFromStandardFormat_def and_then_def g u)
qed

lemma responseFromStandardFormat_gemini_empty:
  assumes "get_prop standard ''choices'' = Inr (Arr [])"
  shows "responseFromStandardFormat standard ''gemini'' =
     Inr (Obj [(''candidates'', Arr
            [Obj [(''content'',
                     Obj [(''parts'', Arr [Obj [(''text'', Str [])]]),
                          (''role'', Str ''model'')]),
                  (''finishReason'', Str ''STOP''),
                  (''index'', Num 0)]])])"
  using assms
  by (simp add: responseFromStandardFormat_def and_then_def js_or_def)

text \<open>
  C9. From an Anthropic response to the IR, a missing \<open>stop_reason\<close> (absent or \<open>null\<close>)
  gives \<open>finish_reason\<close> "stop"; from the IR to an Anthropic response, a missing
  \<open>finish_reason\<close> gives \<open>stop_reason\<close> "end_turn". In both directions a reason that is
  present, a non-empty text, is copied as it is. (The empty text is falsy in JavaScript
  and counts as missing.)
\<close>

theorem anthropic_finish_reason_defaults:
  assumes "is_obj response"
    and "token_count (opt_prop (opt_prop response ''usage'') ''input_tokens'')"
    and "token_count (opt_prop (opt_prop response ''usage'') ''output_tokens'')"
    and "get_prop standard ''choices'' = Inr choices"
    and "elem0 choices = Inr choice"
    and "get_prop standard ''usage'' = Inr usage"
    and "is_obj usage"
  shows "(opt_prop response ''stop_reason'' = Undefined \<or> opt_prop response ''stop_reason'' = Null
           \<longrightarrow> and_then (responseToStandardFormat now response ''anthropic'') finish_reason
                = Inr (Str ''stop''))
       \<and> (\<forall>s. opt_prop response ''stop_reason'' = Str s \<and> s \<noteq> []
           \<longrightarrow> and_then (responseToStandardFormat now response ''anthropic'') finish_reason
                = Inr (Str s))
       \<and> (opt_prop choice ''finish_reason'' = Undefined \<or> opt_prop choice ''finish_reason'' = Null
           \<longrightarrow> and_then (responseFromStandardFormat standard ''anthropic'')
                  (\<lambda>out. get_prop out ''stop_reason'') = Inr (Str ''end_turn''))
       \<and> (\<forall>s. opt_prop choice ''finish_reason'' = Str s \<and> s \<noteq> []
           \<longrightarrow> and_then (responseFromStandardFormat standard ''anthropic'')
                  (\<lambda>out. get_prop out ''stop_reason'') = Inr (Str s))"
  by (auto simp: responseToStandardFormat_anthropic[OF assms(1-3)]
      responseFromStandardFormat_anthropic[OF assms(4-7)]
      and_then_def finish_reason_def choice0_def js_or_def)

text \<open>
  With its \<open>usage\<close> object present, an IR response whose \<open>choices\<close> is the empty array
  is converted without an error to the Anthropic shape, with the empty text and
  \<open>stop_reason\<close> "end_turn", and to the Gemini shape, with the empty text and
  \<open>finishReason\<close> "STOP".
\<close>

lemma empty_choices_with_usage_converted:
  assumes "get_prop standard ''choices'' = Inr (Arr [])"
    and "get_prop standard ''usage'' = Inr usage"
    and "is_obj usage"
  shows "responseFromStandardFormat standard ''anthropic'' =
     Inr (Obj [(''id'', opt_prop standard ''id''),
               (''type'', Str ''message''),
               (''role'', Str ''assistant''),
               (''content'', Arr [Obj [(''type'', Str ''text''), (''text'', Str [])]]),
               (''model'', opt_prop standard ''model''),
               (''stop_reason'', Str ''end_turn''),
               (''usage'', Obj [(''input_tokens'', opt_prop usage ''prompt_tokens''),
                                (''output_tokens'', opt_prop usage ''completion_tokens'')])])
       \<and> responseFromStandardFormat standard ''gemini'' =
     Inr (Obj [(''candidates'', Arr
            [Obj [(''content'',
                     Obj [(''parts'', Arr [Obj [(''text'', Str [])]]),
                          (''role'', Str ''model'')]),
                  (''finishReason'', Str ''STOP''),
                  (''index'', Num 0)]])])"
proof -
  have e: "elem0 (Arr []) = Inr Undefined" by simp
  show ?thesis
    using responseFromStandardFormat_anthropic[OF assms(1) e assms(2,3)]
      responseFromStandardFormat_gemini_empty[OF assms(1)]
    by (simp add: js_or_def)
qed

text \<open>
  C10 at an IR response with empty \<open>choices\<close> and no \<open>usage\<close>, which is what an
  OpenAI-shaped response without \<open>usage\<close> is after \<open>responseToStandardFormat\<close>: the
  conversion to the Anthropic shape reads \<open>standard.usage.prompt_tokens\<close> and throws a
  TypeError, also through \<open>convertResponse\<close>; the conversion to the Gemini shape returns
  the empty text and \<open>finishReason\<close> "STOP".
\<close>

theorem empty_choices_without_usage_fails:
  "get_prop openai_response_without_usage ''choices'' = Inr (Arr [])
   \<and> responseToStandardFormat 0 openai_response_without_usage ''openai''
       = Inr openai_response_without_usage
   \<and> responseFromStandardFormat openai_response_without_usage ''anthropic'' = Inl TypeError
   \<and> convertResponse 0 openai_response_without_usage ''openai'' ''anthropic'' = Inl TypeError
   \<and> responseFromStandardFormat openai_response_without_usage ''gemini'' =
     Inr (Obj [(''candidates'', Arr
            [Obj [(''content'',
                     Obj [(''parts'', Arr [Obj [(''text'', Str [])]]),
                          (''role'', Str ''model'')]),
                  (''finishReason'', Str ''STOP''),
                  (''index'', Num 0)]])])"
  by (simp add: openai_response_without_usage_def convertResponse_def
      responseToStandardFormat_def responseFromStandardFormat_def and_then_def js_or_def)

theorem anthropic_finish_reason_defaults_witness:
  "is_obj anthropic_scenario_b
   \<and> token_count (opt_prop (opt_prop anthropic_scenario_b ''usage'') ''input_tokens'')
   \<and> token_count (opt_prop (opt_prop anthropic_scenario_b ''usage'') ''output_tokens'')
   \<and> get_prop ir_scenario_b ''choices'' = Inr (Arr
             [Obj [(''index'', Num 0),
                   (''message'', Obj [(''role'', Str ''assistant''), (''content'', Str ''Hi'')]),
                   (''finish_reason'', Str ''length'')]])
   \<and> elem0 (Arr
             [Obj [(''index'', Num 0),
                   (''message'', Obj [(''role'', Str ''assistant''), (''content'', Str ''Hi'')]),
                   (''finish_reason'', Str ''length'')]])
       = Inr (Obj [(''index'', Num 0),
                   (''message'', Obj [(''role'', Str ''assistant''), (''content'', Str ''Hi'')]),
                   (''finish_reason'', Str ''length'')])
   \<and> get_prop ir_scenario_b ''usage'' = Inr (Obj [(''prompt_tokens'', Num 10),
                           (''completion_tokens'', Num 5),
                           (''total_tokens'', Num 15)])
   \<and> is_obj (Obj [(''prompt_tokens'', Num 10),
                           (''completion_tokens'', Num 5),
                           (''total_tokens'', Num 15)])
   \<and> and_then (responseToStandardFormat 0 anthropic_scenario_b ''anthropic'') finish_reason
        = Inr (Str ''end_turn'')
   \<and> and_then (responseFromStandardFormat ir_scenario_b ''anthropic'')
        (\<lambda>out. get_prop out ''stop_reason'') = Inr (Str ''length'')
   \<and> and_then (responseFromStandardFormat ir_without_choices ''anthropic'')
        (\<lambda>out. get_prop out ''stop_reason'') = Inr (Str ''end_turn'')
   \<and> and_then (responseToStandardFormat 0 anthropic_without_stop_reason ''anthropic'')
        finish_reason = Inr (Str ''stop'')"
proof -
  have m1: "is_obj anthropic_without_stop_reason"
    by (simp add: anthropic_without_stop_reason_def)
  have m2: "token_count
      (opt_prop (opt_prop anthropic_without_stop_reason ''usage'') ''input_tokens'')"
    by (simp add: anthropic_without_stop_reason_def)
  have m3: "token_count
      (opt_prop (opt_prop anthropic_without_stop_reason ''usage'') ''output_tokens'')"
    by (simp add: anthropic_without_stop_reason_def)
  have ms: "opt_prop anthropic_without_stop_reason ''stop_reason'' = Undefined"
    by (simp add: anthropic_without_stop_reason_def)
  have h1: "is_obj anthropic_scenario_b"
    by (simp add: anthropic_scenario_b_def)
  have h2: "token_count (opt_prop (opt_prop anthropic_scenario_b ''usage'') ''input_tokens'')"
    by (simp add: anthropic_scenario_b_def)
  have h3: "token_count (opt_prop (opt_prop anthropic_scenario_b ''usage'') ''output_tokens'')"
    by (simp add: anthropic_scenario_b_def)
  have h4: "get_prop ir_scenario_b ''choices'' = Inr (Arr
             [Obj [(''index'', Num 0),
                   (''message'', Obj [(''role'', Str ''assistant''), (''content'', Str ''Hi'')]),
                   (''finish_reason'', Str ''length'')]])"
    by (simp add: ir_scenario_b_def)
  have h5: "elem0 (Arr
             [Obj [(''index'', Num 0),
                   (''message'', Obj [(''role'', Str ''assistant''), (''content'', Str ''Hi'')]),
                   (''finish_reason'', Str ''length'')]])
       = Inr (Obj [(''index'', Num 0),
                   (''message'', Obj [(''role'', Str ''assistant''), (''content'', Str ''Hi'')]),
                   (''finish_reason'', Str ''length'')])"
    by simp
  have h6: "get_prop ir_scenario_b ''usage'' = Inr (Obj [(''prompt_tokens'', Num 10),
                           (''completion_tokens'', Num 5),
                           (''total_tokens'', Num 15)])"
    by (simp add: ir_scenario_b_def)
  have h7: "is_obj (Obj [(''prompt_tokens'', Num 10),
                           (''completion_tokens'', Num 5),
                           (''total_tokens'', Num 15)])"
    by simp
  have g1: "get_prop ir_without_choices ''choices'' = Inr (Arr [])"
    by (simp add: ir_without_choices_def)
  have g2: "elem0 (Arr []) = Inr Undefined" by simp
  have g3: "get_prop ir_without_choices ''usage'' =
        Inr (Obj [(''prompt_tokens'', Num 7), (''completion_tokens'', Num 0),
                  (''total_tokens'', Num 7)])"
    by (simp add: ir_without_choices_def)
  have g4: "is_obj (Obj [(''prompt_tokens'', Num 7), (''completion_tokens'', Num 0),
                  (''total_tokens'', Num 7)])"
    by simp
  have s: "opt_prop anthropic_scenario_b ''stop_reason'' = Str ''end_turn''"
    by (simp add: anthropic_scenario_b_def)
  show ?thesis
    using anthropic_finish_reason_defaults[OF h1 h2 h3 h4 h5 h6 h7, of 0]
      anthropic_finish_reason_defaults[OF h1 h2 h3 g1 g2 g3 g4, of 0]
      anthropic_finish_reason_defaults[OF m1 m2 m3 h4 h5 h6 h7, of 0]
      h1 h2 h3 h4 h5 h6 h7
    by (simp add: s ms)
qed

theorem ir_chunk_to_anthropic_event_witness:
  "get_prop he_chunk ''choices'' = Inr (Arr
      [Obj [(''index'', Num 0), (''delta'', Obj [(''content'', Str ''He'')]),
            (''finish_reason'', Null)]])
   \<and> elem0 (Arr [Obj [(''index'', Num 0), (''delta'', Obj [(''content'', Str ''He'')]),
                     (''finish_reason'', Null)]])
       = Inr (Obj [(''index'', Num 0), (''delta'', Obj [(''content'', Str ''He'')]),
                   (''finish_reason'', Null)])
   \<and> streamChunkFromStandardFormat he_chunk ''anthropic'' =
        Inr (Obj [(''type'', Str ''content_block_delta''),
                  (''index'', Num 0),
                  (''delta'', Obj [(''type'', Str ''text_delta''), (''text'', Str ''He'')])])
   \<and> get_prop stop_chunk ''choices'' = Inr (Arr
      [Obj [(''index'', Num 0), (''delta'', Obj []), (''finish_reason'', Str ''stop'')]])
   \<and> elem0 (Arr [Obj [(''index'', Num 0), (''delta'', Obj []), (''finish_reason'', Str ''stop'')]])
       = Inr (Obj [(''index'', Num 0), (''delta'', Obj []), (''finish_reason'', Str ''stop'')])
   \<and> streamChunkFromStandardFormat stop_chunk ''anthropic'' =
        Inr (Obj [(''type'', Str ''message_stop'')])
   \<and> get_prop idle_chunk ''choices'' = Inr (Arr
      [Obj [(''index'', Num 0), (''delta'', Obj []), (''finish_reason'', Null)]])
   \<and> elem0 (Arr [Obj [(''index'', Num 0), (''delta'', Obj []), (''finish_reason'', Null)]])
       = Inr (Obj [(''index'', Num 0), (''delta'', Obj []), (''finish_reason'', Null)])
   \<and> streamChunkFromStandardFormat idle_chunk ''anthropic'' = Inr idle_chunk"
proof -
  have a1: "get_prop he_chunk ''choices'' = Inr (Arr
      [Obj [(''index'', Num 0), (''delta'', Obj [(''content'', Str ''He'')]),
            (''finish_reason'', Null)]])"
    by (simp add: he_chunk_def openai_chunk_def)
  have a2: "elem0 (Arr [Obj [(''index'', Num 0), (''delta'', Obj [(''content'', Str ''He'')]),
                     (''finish_reason'', Null)]])
       = Inr (Obj [(''index'', Num 0), (''delta'', Obj [(''content'', Str ''He'')]),
                   (''finish_reason'', Null)])"
    by simp
  have b1: "get_prop stop_chunk ''choices'' = Inr (Arr
      [Obj [(''index'', Num 0), (''delta'', Obj []), (''finish_reason'', Str ''stop'')]])"
    by (simp add: stop_chunk_def openai_chunk_def)
  have b2: "elem0 (Arr [Obj [(''index'', Num 0), (''delta'', Obj []), (''finish_reason'', Str ''stop'')]])
       = Inr (Obj [(''index'', Num 0), (''delta'', Obj []), (''finish_reason'', Str ''stop'')])"
    by simp
  have c1: "get_prop idle_chunk ''choices'' = Inr (Arr
      [Obj [(''index'', Num 0), (''delta'', Obj []), (''finish_reason'', Null)]])"
    by (simp add: idle_chunk_def openai_chunk_def)
  have c2: "elem0 (Arr [Obj [(''index'', Num 0), (''delta'', Obj []), (''finish_reason'', Null)]])
       = Inr (Obj [(''index'', Num 0), (''delta'', Obj []), (''finish_reason'', Null)])"
    by simp
  show ?thesis
    using ir_chunk_to_anthropic_event[OF a1 a2, of 0] ir_chunk_to_anthropic_event[OF b1 b2, of 0]
      ir_chunk_to_anthropic_event[OF c1 c2, of 0] a1 a2 b1 b2 c1 c2
    by simp
qed

section \<open>Requests: cache control, system messages, round trip\<close>

lemma is_obj_get_prop: "is_obj v \<Longrightarrow> get_prop v k = Inr (opt_prop v k)"
  by (cases v) auto

lemma is_obj_own_props: "is_obj v \<Longrightarrow> v = Obj (own_props v)"
  by (cases v) auto

lemma clean_part_obj: "is_obj p \<Longrightarrow> clean_part p = Inr (cleaned_part p)"
  by (cases p) (auto simp: clean_part_def cleaned_part_def)

lemma map_result_Inr:
  "(\<And>x. x \<in> set xs \<Longrightarrow> f x = Inr (g x)) \<Longrightarrow> map_result f xs = Inr (map g xs)"
  by (induction xs) (simp_all add: and_then_def)

lemma clean_message_wf:
  assumes "well_formed_message m"
  shows "clean_message m = Inr (cleaned_message m)"
proof -
  have o: "is_obj m" using assms by (simp add: well_formed_message_def)
  show ?thesis
  proof (cases "opt_prop m ''content''")
    case (Arr ps)
    then have "list_all is_obj ps"
      using assms by (simp add: well_formed_message_def content_parts_def)
    then have "map_result clean_part ps = Inr (map cleaned_part ps)"
      by (intro map_result_Inr clean_part_obj) (simp add: list_all_iff)
    then show ?thesis
      by (simp add: clean_message_def cleaned_message_def is_obj_get_prop[OF o] Arr and_then_def)
  qed (simp_all add: clean_message_def cleaned_message_def is_obj_get_prop[OF o] and_then_def)
qed

lemma removeCacheControl_wf:
  assumes "\<forall>m \<in> set ms. well_formed_message m"
  shows "removeCacheControlFromMessages (Arr ms) = Inr (Arr (map cleaned_message ms))"
proof (cases "ms = []")
  case True
  then show ?thesis by (simp add: removeCacheControlFromMessages_def and_then_def)
next
  case False
  have "map_result clean_message ms = Inr (map cleaned_message ms)"
    using assms by (intro map_result_Inr clean_message_wf) simp
  then show ?thesis
    using False by (simp add: removeCacheControlFromMessages_def and_then_def)
qed

lemma cleaned_part_plain: "\<not> carries_cache_control (cleaned_part p)"
  by (simp add: carries_cache_control_def cleaned_part_def delete_conv')

lemma is_obj_cleaned_part: "is_obj (cleaned_part p)"
  by (simp add: cleaned_part_def)

lemma cleaned_message_content:
  assumes "is_obj m"
  shows "opt_prop (cleaned_message m) ''content'' =
     (case opt_prop m ''content'' of Arr ps \<Rightarrow> Arr (map cleaned_part ps) | v \<Rightarrow> v)"
  using assms
  by (cases m; cases "opt_prop m ''content''")
     (simp_all add: cleaned_message_def update_conv')

lemma cleaned_message_other:
  assumes "is_obj m" and "k \<noteq> ''content''"
  shows "opt_prop (cleaned_message m) k = opt_prop m k"
  using assms
  by (cases m; cases "opt_prop m ''content''")
     (simp_all add: cleaned_message_def update_conv')

lemma is_obj_cleaned_message: "is_obj m \<Longrightarrow> is_obj (cleaned_message m)"
  by (cases m; cases "opt_prop m ''content''") (simp_all add: cleaned_message_def)

lemma cleaned_message_plain: "is_obj m \<Longrightarrow> \<not> annotated (cleaned_message m)"
  by (cases "opt_prop m ''content''")
     (simp_all add: annotated_def content_parts_def cleaned_message_content
        list_ex_iff cleaned_part_plain)

lemma has_role_cleaned: "is_obj m \<Longrightarrow> has_role r (cleaned_message m) = has_role r m"
  by (simp add: has_role_def cleaned_message_other)

lemma well_formed_cleaned: "is_obj m \<Longrightarrow> well_formed_message (cleaned_message m)"
  by (cases "opt_prop m ''content''")
     (simp_all add: well_formed_message_def is_obj_cleaned_message content_parts_def
        cleaned_message_content list_all_iff is_obj_cleaned_part)

lemma mark_message_wf:
  assumes "well_formed_message m"
  shows "mark_message m = Inr (marked_message m)"
proof -
  have o: "is_obj m" using assms by (simp add: well_formed_message_def)
  show ?thesis
  proof (cases "opt_prop m ''content''")
    case (Arr ps)
    show ?thesis
    proof (cases "ps = []")
      case True
      then show ?thesis
        by (simp add: mark_message_def marked_message_def is_obj_get_prop[OF o] Arr and_then_def)
    next
      case False
      have "list_all is_obj ps"
        using assms Arr by (simp add: well_formed_message_def content_parts_def)
      then have "is_obj (last ps)"
        using False by (simp add: list_all_iff)
      then have "get_prop (last ps) ''type'' = Inr (opt_prop (last ps) ''type'')"
        by (rule is_obj_get_prop)
      then show ?thesis
        using False
        by (simp add: mark_message_def marked_message_def is_obj_get_prop[OF o] Arr and_then_def)
    qed
  qed (simp_all add: mark_message_def marked_message_def is_obj_get_prop[OF o] and_then_def)
qed

lemma role_test: "is_obj m \<Longrightarrow> get_prop m ''role'' = Inr r \<Longrightarrow> (r = Str ''user'') = has_role ''user'' m"
  by (cases m) (auto simp: has_role_def)

lemma add_loop_no_user:
  assumes "n \<le> length xs"
    and "\<forall>j<n. is_obj (xs ! j) \<and> \<not> has_role ''user'' (xs ! j)"
  shows "add_loop xs n = Inr xs"
  using assms
proof (induction n)
  case 0
  then show ?case by simp
next
  case (Suc n)
  then have o: "is_obj (xs ! n)" and r: "\<not> has_role ''user'' (xs ! n)"
    by auto
  have "opt_prop (xs ! n) ''role'' \<noteq> Str ''user''"
    using r by (simp add: has_role_def)
  then show ?case
    using Suc by (simp add: is_obj_get_prop[OF o] and_then_def)
qed

lemma add_loop_user:
  assumes "i < n" and "n \<le> length xs"
    and "\<forall>j<n. is_obj (xs ! j)"
    and "has_role ''user'' (xs ! i)"
    and "\<forall>j. i < j \<and> j < n \<longrightarrow> \<not> has_role ''user'' (xs ! j)"
  shows "add_loop xs n = and_then (mark_message (xs ! i)) (\<lambda>m. Inr (xs[i := m]))"
  using assms
proof (induction n)
  case 0
  then show ?case by simp
next
  case (Suc n)
  have o: "is_obj (xs ! n)" using Suc.prems by auto
  show ?case
  proof (cases "i = n")
    case True
    then have "opt_prop (xs ! n) ''role'' = Str ''user''"
      using Suc.prems by (simp add: has_role_def)
    then show ?thesis
      using True by (simp add: is_obj_get_prop[OF o] and_then_def)
  next
    case False
    then have lt: "i < n" using Suc.prems by simp
    have "\<not> has_role ''user'' (xs ! n)"
      using Suc.prems lt by auto
    then have nr: "opt_prop (xs ! n) ''role'' \<noteq> Str ''user''"
      by (simp add: has_role_def)
    have "add_loop xs n = and_then (mark_message (xs ! i)) (\<lambda>m. Inr (xs[i := m]))"
      using Suc.prems lt by (intro Suc.IH) auto
    then show ?thesis
      using nr by (simp add: is_obj_get_prop[OF o] and_then_def)
  qed
qed

lemma list_all_drop:
  "list_all P (drop k xs) \<longleftrightarrow> (\<forall>j. k \<le> j \<and> j < length xs \<longrightarrow> P (xs ! j))"
proof -
  have "list_all P (drop k xs) \<longleftrightarrow> (\<forall>j < length xs - k. P (xs ! (k + j)))"
    by (simp add: list_all_length)
  also have "\<dots> \<longleftrightarrow> (\<forall>j. k \<le> j \<and> j < length xs \<longrightarrow> P (xs ! j))"
  proof
    assume a: "\<forall>j < length xs - k. P (xs ! (k + j))"
    show "\<forall>j. k \<le> j \<and> j < length xs \<longrightarrow> P (xs ! j)"
    proof (intro allI impI)
      fix j assume "k \<le> j \<and> j < length xs"
      then have "j - k < length xs - k" and "k + (j - k) = j" by auto
      then show "P (xs ! j)" using a by metis
    qed
  next
    assume "\<forall>j. k \<le> j \<and> j < length xs \<longrightarrow> P (xs ! j)"
    then show "\<forall>j < length xs - k. P (xs ! (k + j))" by auto
  qed
  finally show ?thesis .
qed

lemma addCacheControl_no_user:
  assumes "\<forall>m \<in> set xs. is_obj m \<and> \<not> has_role ''user'' m"
  shows "addCacheControlToMessages (Arr xs) = Inr (Arr xs)"
proof (cases "xs = []")
  case True
  then show ?thesis by (simp add: addCacheControlToMessages_def and_then_def)
next
  case False
  have "add_loop xs (length xs) = Inr xs"
    using assms by (intro add_loop_no_user) auto
  then show ?thesis
    using False by (simp add: addCacheControlToMessages_def and_then_def)
qed

lemma addCacheControl_last_user:
  assumes "\<forall>m \<in> set xs. well_formed_message m"
    and "last_user xs i"
  shows "addCacheControlToMessages (Arr xs) = Inr (Arr (xs[i := marked_message (xs ! i)]))"
proof -
  have i: "i < length xs" and u: "has_role ''user'' (xs ! i)"
    and after: "\<forall>j. i < j \<and> j < length xs \<longrightarrow> \<not> has_role ''user'' (xs ! j)"
    using assms(2) by (auto simp: last_user_def list_all_drop)
  have objs: "\<forall>j<length xs. is_obj (xs ! j)"
    using assms(1) by (auto simp: well_formed_message_def)
  have wf: "well_formed_message (xs ! i)"
    using assms(1) i by simp
  have ne: "xs \<noteq> []" using i by auto
  have "add_loop xs (length xs) = and_then (mark_message (xs ! i)) (\<lambda>m. Inr (xs[i := m]))"
    using i objs u after by (intro add_loop_user) auto
  then show ?thesis
    using ne by (simp add: addCacheControlToMessages_def and_then_def mark_message_wf[OF wf])
qed

lemma last_user_exists:
  assumes "\<exists>m \<in> set xs. has_role ''user'' m"
  shows "\<exists>i. last_user xs i"
  using assms
proof (induction xs rule: rev_induct)
  case Nil
  then show ?case by simp
next
  case (snoc x xs)
  show ?case
  proof (cases "has_role ''user'' x")
    case True
    then have "last_user (xs @ [x]) (length xs)"
      by (simp add: last_user_def)
    then show ?thesis ..
  next
    case False
    then obtain i where i: "last_user xs i"
      using snoc by auto
    then have "last_user (xs @ [x]) i"
      using False by (auto simp: last_user_def nth_append)
    then show ?thesis ..
  qed
qed

lemma last_user_unique:
  assumes "last_user xs i" and "last_user xs j"
  shows "i = j"
proof (rule ccontr)
  assume "i \<noteq> j"
  then consider "i < j" | "j < i" by linarith
  then show False
  proof cases
    case 1
    have "j < length xs" and "has_role ''user'' (xs ! j)"
      using assms(2) by (simp_all add: last_user_def)
    moreover have "\<forall>k. Suc i \<le> k \<and> k < length xs \<longrightarrow> \<not> has_role ''user'' (xs ! k)"
      using assms(1) by (simp add: last_user_def list_all_drop)
    ultimately show False using 1 by auto
  next
    case 2
    have "i < length xs" and "has_role ''user'' (xs ! i)"
      using assms(1) by (simp_all add: last_user_def)
    moreover have "\<forall>k. Suc j \<le> k \<and> k < length xs \<longrightarrow> \<not> has_role ''user'' (xs ! k)"
      using assms(2) by (simp add: last_user_def list_all_drop)
    ultimately show False using 2 by auto
  qed
qed

lemma isClaudeModel_Str: "isClaudeModel (Str model) = Inr (claude_family model)"
  by (simp add: isClaudeModel_def claude_family_def and_then_def str_includes_def)

lemma reinsertion_condition:
  "(case req of
      None \<Rightarrow> Inr cleaned
    | Some r \<Rightarrow>
       (case headers_get r ''anthropic-beta'' of
          None \<Rightarrow> Inr cleaned
        | Some anthropicBeta \<Rightarrow>
            if anthropicBeta \<noteq> [] \<and> str_includes anthropicBeta ''prompt-caching''
            then and_then (isClaudeModel (Str model)) (\<lambda>claude.
                   if claude then addCacheControlToMessages cleaned else Inr cleaned)
            else Inr cleaned))
   = (if opt_in req \<and> claude_family model then addCacheControlToMessages cleaned
      else Inr cleaned)"
  by (auto simp: opt_in_def isClaudeModel_Str and_then_def str_includes_def
      split: option.splits)

lemma fromStandardFormat_openrouter:
  assumes "target = ''openai'' \<or> target = ''openrouter''"
    and "is_obj standard"
    and "opt_prop standard ''model'' = Str model"
    and "opt_prop standard ''messages'' = Arr ms"
    and "\<forall>m \<in> set ms. well_formed_message m"
  shows "fromStandardFormat standard target req (Some ''openrouter'') =
     and_then
       (if opt_in req \<and> claude_family model
        then addCacheControlToMessages (Arr (map cleaned_message ms))
        else Inr (Arr (map cleaned_message ms)))
       (\<lambda>messages2.
          Inr (Obj [(''model'', Str model),
                    (''messages'', messages2),
                    (''max_tokens'', opt_prop standard ''max_tokens''),
                    (''temperature'', opt_prop standard ''temperature''),
                    (''stream'', opt_prop standard ''stream'')]))"
proof -
  have g: "get_prop standard k = Inr (opt_prop standard k)" for k
    by (rule is_obj_get_prop[OF assms(2)])
  show ?thesis
    using assms(1)
    by (simp add: fromStandardFormat_def g assms(3,4) removeCacheControl_wf[OF assms(5)]
        reinsertion_condition and_then_def)
qed

lemma opt_prop_cleaned_part:
  "is_obj p \<Longrightarrow> k \<noteq> ''cache_control'' \<Longrightarrow> opt_prop (cleaned_part p) k = opt_prop p k"
  by (cases p) (simp_all add: cleaned_part_def delete_conv')

lemma marked_other:
  "is_obj m \<Longrightarrow> k \<noteq> ''content'' \<Longrightarrow> opt_prop (marked_message m) k = opt_prop m k"
  by (cases m; cases "opt_prop m ''content''")
     (simp_all add: marked_message_def update_conv')

lemma marked_cleaned_text:
  assumes "is_obj m" and "opt_prop m ''content'' = Str s"
  shows "opt_prop (marked_message (cleaned_message m)) ''content'' =
     Arr [Obj [(''type'', Str ''text''), (''text'', Str s), (''cache_control'', ephemeral)]]"
proof -
  have "cleaned_message m = m"
    using assms(2) by (simp add: cleaned_message_def)
  then show ?thesis
    using assms by (cases m) (simp_all add: marked_message_def update_conv')
qed

lemma marked_cleaned_parts:
  assumes "well_formed_message m" and "opt_prop m ''content'' = Arr ps" and "ps \<noteq> []"
    and "opt_prop (last ps) ''type'' = Str ''text''"
  shows "opt_prop (marked_message (cleaned_message m)) ''content'' =
     Arr (map cleaned_part (butlast ps) @
          [Obj (AList.update ''cache_control'' ephemeral (own_props (cleaned_part (last ps))))])"
proof -
  have o: "is_obj m" using assms(1) by (simp add: well_formed_message_def)
  have "list_all is_obj ps"
    using assms(1,2) by (simp add: well_formed_message_def content_parts_def)
  then have lo: "is_obj (last ps)"
    using assms(3) by (simp add: list_all_iff)
  have c: "opt_prop (cleaned_message m) ''content'' = Arr (map cleaned_part ps)"
    by (simp add: cleaned_message_content[OF o] assms(2))
  have t: "opt_prop (last (map cleaned_part ps)) ''type'' = Str ''text''"
    using assms(3,4) by (simp add: last_map opt_prop_cleaned_part[OF lo])
  have oc: "is_obj (cleaned_message m)"
    by (rule is_obj_cleaned_message[OF o])
  obtain kv where kv: "cleaned_message m = Obj kv"
    using oc by (cases "cleaned_message m") auto
  show ?thesis
    using c t assms(3)
    by (simp add: kv marked_message_def update_conv' last_map map_butlast)
qed

lemma update_twice: "AList.update k v (AList.update k v kv) = AList.update k v kv"
  by (induction kv) auto

lemma marked_cleaned_plain:
  assumes "well_formed_message m"
    and "list_all (\<lambda>p. opt_prop p ''type'' \<noteq> Str ''text'') (content_parts m)"
    and "\<forall>s. opt_prop m ''content'' \<noteq> Str s"
  shows "marked_message (cleaned_message m) = cleaned_message m"
proof (cases "opt_prop m ''content''")
  case (Arr ps)
  obtain kv where kv: "m = Obj kv"
    using assms(1) by (cases m) (auto simp: well_formed_message_def)
  have ps: "list_all (\<lambda>p. opt_prop p ''type'' \<noteq> Str ''text'') ps"
    using assms(2) Arr by (simp add: content_parts_def)
  have objs: "list_all is_obj ps"
    using assms(1) Arr by (simp add: well_formed_message_def content_parts_def)
  have "ps \<noteq> [] \<Longrightarrow> opt_prop (last (map cleaned_part ps)) ''type'' \<noteq> Str ''text''"
  proof -
    assume ne: "ps \<noteq> []"
    then have l: "opt_prop (last ps) ''type'' \<noteq> Str ''text''" and lo: "is_obj (last ps)"
      using ps objs by (simp_all add: list_all_iff)
    show ?thesis
      using l ne by (simp add: last_map opt_prop_cleaned_part[OF lo])
  qed
  then show ?thesis
    using Arr kv
    by (auto simp: cleaned_message_def marked_message_def update_conv' update_twice)
next
  case (Str s)
  then show ?thesis using assms(3) by simp
qed (simp_all add: cleaned_message_def marked_message_def)

text \<open>
  C3, as the code has it. A request with well-formed messages converted for the OpenRouter
  platform: if some content-part of an emitted message carries \<open>cache_control\<close>, then the
  \<open>anthropic-beta\<close> header contains "prompt-caching" and the model identifier contains
  "claude" or "anthropic" (in any case). When both hold, only the last message whose role is
  \<open>user\<close> is touched: every other message is emitted cleaned, without \<open>cache_control\<close>;
  a bare string content becomes the one text part carrying \<open>cache_control\<close>; an array
  content whose last part is a text part gets \<open>cache_control\<close> on that part only; and with
  no user message, or with a last user message that has no text part at all, no part of any
  message carries \<open>cache_control\<close>.
\<close>

theorem cache_control_on_openrouter:
  assumes "target = ''openai'' \<or> target = ''openrouter''"
    and "is_obj standard"
    and "opt_prop standard ''model'' = Str model"
    and "opt_prop standard ''messages'' = Arr ms"
    and "\<forall>m \<in> set ms. well_formed_message m"
  shows "\<exists>out.
      fromStandardFormat standard target req (Some ''openrouter'') =
        Inr (Obj [(''model'', Str model),
                  (''messages'', Arr out),
                  (''max_tokens'', opt_prop standard ''max_tokens''),
                  (''temperature'', opt_prop standard ''temperature''),
                  (''stream'', opt_prop standard ''stream'')])
    \<and> length out = length ms
    \<and> ((\<exists>m \<in> set out. annotated m) \<longrightarrow> opt_in req \<and> claude_family model)
    \<and> (opt_in req \<and> claude_family model \<longrightarrow>
         ((\<forall>m \<in> set ms. \<not> has_role ''user'' m) \<longrightarrow> (\<forall>m \<in> set out. \<not> annotated m))
       \<and> (\<forall>i. last_user ms i \<longrightarrow>
            (\<forall>j < length ms. j \<noteq> i \<longrightarrow> out ! j = cleaned_message (ms ! j) \<and> \<not> annotated (out ! j))
          \<and> (\<forall>k. k \<noteq> ''content'' \<longrightarrow> opt_prop (out ! i) k = opt_prop (ms ! i) k)
          \<and> (\<forall>s. opt_prop (ms ! i) ''content'' = Str s \<longrightarrow>
                opt_prop (out ! i) ''content'' =
                  Arr [Obj [(''type'', Str ''text''), (''text'', Str s),
                            (''cache_control'', ephemeral)]])
          \<and> (\<forall>ps. opt_prop (ms ! i) ''content'' = Arr ps \<and> ps \<noteq> [] \<and>
                   opt_prop (last ps) ''type'' = Str ''text'' \<longrightarrow>
                opt_prop (out ! i) ''content'' =
                  Arr (map cleaned_part (butlast ps) @
                       [Obj (AList.update ''cache_control'' ephemeral
                               (own_props (cleaned_part (last ps))))]))
          \<and> ((\<forall>s. opt_prop (ms ! i) ''content'' \<noteq> Str s) \<and>
              list_all (\<lambda>p. opt_prop p ''type'' \<noteq> Str ''text'') (content_parts (ms ! i)) \<longrightarrow>
                out ! i = cleaned_message (ms ! i) \<and> \<not> annotated (out ! i))))"
proof -
  let ?cl = "map cleaned_message ms"
  let ?request = "\<lambda>messages2. Inr (Obj [(''model'', Str model),
                  (''messages'', messages2),
                  (''max_tokens'', opt_prop standard ''max_tokens''),
                  (''temperature'', opt_prop standard ''temperature''),
                  (''stream'', opt_prop standard ''stream'')]) :: jsval result"
  let ?result = "\<lambda>out. ?request (Arr out)"
  have objs: "\<forall>m \<in> set ms. is_obj m"
    using assms(5) by (simp add: well_formed_message_def)
  have plain: "\<forall>m \<in> set ?cl. \<not> annotated m"
    using objs by (auto simp: cleaned_message_plain)
  have conv: "fromStandardFormat standard target req (Some ''openrouter'') =
     and_then
       (if opt_in req \<and> claude_family model
        then addCacheControlToMessages (Arr ?cl) else Inr (Arr ?cl))
       ?request"
    by (rule fromStandardFormat_openrouter[OF assms])
  have wf_cl: "\<forall>m \<in> set ?cl. well_formed_message m"
    using objs by (auto simp: well_formed_cleaned)
  have no_last: "\<not> last_user ms i" if "\<forall>m \<in> set ms. \<not> has_role ''user'' m" for i
    using that by (auto simp: last_user_def)
  show ?thesis
  proof (cases "opt_in req \<and> claude_family model")
    case False
    have "fromStandardFormat standard target req (Some ''openrouter'') = ?result ?cl"
      using False by (auto simp: conv and_then_def)
    then show ?thesis
      using False plain by (intro exI[of _ ?cl]) auto
  next
    case both: True
    show ?thesis
    proof (cases "\<exists>m \<in> set ms. has_role ''user'' m")
      case False
      then have "\<forall>m \<in> set ?cl. is_obj m \<and> \<not> has_role ''user'' m"
        using objs by (auto simp: is_obj_cleaned_message has_role_cleaned)
      then have "addCacheControlToMessages (Arr ?cl) = Inr (Arr ?cl)"
        by (rule addCacheControl_no_user)
      then have "fromStandardFormat standard target req (Some ''openrouter'') = ?result ?cl"
        using both by (simp add: conv and_then_def)
      then show ?thesis
        using both plain False no_last by (intro exI[of _ ?cl]) simp
    next
      case True
      then obtain i where i: "last_user ms i"
        using last_user_exists by blast
      then have il: "i < length ms"
        by (simp add: last_user_def)
      have wi: "well_formed_message (ms ! i)" and oi: "is_obj (ms ! i)"
        using assms(5) objs il by simp_all
      have "last_user ?cl i"
        using i objs
        by (auto simp: last_user_def list_all_drop has_role_cleaned)
      then have add: "addCacheControlToMessages (Arr ?cl) =
          Inr (Arr (?cl[i := marked_message (?cl ! i)]))"
        by (rule addCacheControl_last_user[OF wf_cl])
      let ?out = "?cl[i := marked_message (cleaned_message (ms ! i))]"
      have res: "fromStandardFormat standard target req (Some ''openrouter'') = ?result ?out"
        using both il by (simp add: conv add and_then_def)
      have at_i: "?out ! i = marked_message (cleaned_message (ms ! i))"
        using il by simp
      have others: "\<forall>j < length ms. j \<noteq> i \<longrightarrow>
          ?out ! j = cleaned_message (ms ! j) \<and> \<not> annotated (?out ! j)"
        using objs by (auto simp: cleaned_message_plain)
      have other_props: "\<forall>k. k \<noteq> ''content'' \<longrightarrow> opt_prop (?out ! i) k = opt_prop (ms ! i) k"
        by (simp add: at_i marked_other[OF is_obj_cleaned_message[OF oi]]
            cleaned_message_other[OF oi])
      have text_case: "\<forall>s. opt_prop (ms ! i) ''content'' = Str s \<longrightarrow>
          opt_prop (?out ! i) ''content'' =
            Arr [Obj [(''type'', Str ''text''), (''text'', Str s), (''cache_control'', ephemeral)]]"
        by (simp add: at_i marked_cleaned_text[OF oi])
      have parts_case: "\<forall>ps. opt_prop (ms ! i) ''content'' = Arr ps \<and> ps \<noteq> [] \<and>
                   opt_prop (last ps) ''type'' = Str ''text'' \<longrightarrow>
                opt_prop (?out ! i) ''content'' =
                  Arr (map cleaned_part (butlast ps) @
                       [Obj (AList.update ''cache_control'' ephemeral
                               (own_props (cleaned_part (last ps))))])"
        by (simp add: at_i marked_cleaned_parts[OF wi])
      have plain_case: "(\<forall>s. opt_prop (ms ! i) ''content'' \<noteq> Str s) \<and>
              list_all (\<lambda>p. opt_prop p ''type'' \<noteq> Str ''text'') (content_parts (ms ! i)) \<longrightarrow>
                ?out ! i = cleaned_message (ms ! i) \<and> \<not> annotated (?out ! i)"
      proof (intro impI)
        assume a: "(\<forall>s. opt_prop (ms ! i) ''content'' \<noteq> Str s) \<and>
            list_all (\<lambda>p. opt_prop p ''type'' \<noteq> Str ''text'') (content_parts (ms ! i))"
        have eq: "marked_message (cleaned_message (ms ! i)) = cleaned_message (ms ! i)"
          using a by (intro marked_cleaned_plain[OF wi]) simp_all
        show "?out ! i = cleaned_message (ms ! i) \<and> \<not> annotated (?out ! i)"
          using il cleaned_message_plain[OF oi] by (simp add: eq)
      qed
      have only_i: "i' = i" if "last_user ms i'" for i'
        using that i by (rule last_user_unique)
      have at_last: "\<forall>i'. last_user ms i' \<longrightarrow>
            (\<forall>j < length ms. j \<noteq> i' \<longrightarrow> ?out ! j = cleaned_message (ms ! j) \<and> \<not> annotated (?out ! j))
          \<and> (\<forall>k. k \<noteq> ''content'' \<longrightarrow> opt_prop (?out ! i') k = opt_prop (ms ! i') k)
          \<and> (\<forall>s. opt_prop (ms ! i') ''content'' = Str s \<longrightarrow>
                opt_prop (?out ! i') ''content'' =
                  Arr [Obj [(''type'', Str ''text''), (''text'', Str s),
                            (''cache_control'', ephemeral)]])
          \<and> (\<forall>ps. opt_prop (ms ! i') ''content'' = Arr ps \<and> ps \<noteq> [] \<and>
                   opt_prop (last ps) ''type'' = Str ''text'' \<longrightarrow>
                opt_prop (?out ! i') ''content'' =
                  Arr (map cleaned_part (butlast ps) @
                       [Obj (AList.update ''cache_control'' ephemeral
                               (own_props (cleaned_part (last ps))))]))
          \<and> ((\<forall>s. opt_prop (ms ! i') ''content'' \<noteq> Str s) \<and>
              list_all (\<lambda>p. opt_prop p ''type'' \<noteq> Str ''text'') (content_parts (ms ! i')) \<longrightarrow>
                ?out ! i' = cleaned_message (ms ! i') \<and> \<not> annotated (?out ! i'))"
        using others other_props text_case parts_case plain_case only_i by blast
      have users: "\<not> (\<forall>m \<in> set ms. \<not> has_role ''user'' m)"
        using True by blast
      have len: "length ?out = length ms" by simp
      show ?thesis
        using res len both users at_last by (intro exI[of _ ?out]) blast
    qed
  qed
qed

lemma opt_in_beta: "opt_in (Some beta_request)"
  by code_simp

lemma claude_sonnet: "claude_family ''claude-sonnet-4''"
  by code_simp

lemma gpt4: "\<not> claude_family ''gpt-4''"
  by code_simp

text \<open>
  C3 as stated fails in the direction from the two conditions to the annotation: with the
  header and a Claude model, a request whose last user message holds only a tool result is
  emitted without any \<open>cache_control\<close>.
\<close>

theorem cache_control_on_openrouter_counterexample:
  "opt_in (Some beta_request)
   \<and> claude_family ''claude-sonnet-4''
   \<and> fromStandardFormat (ir_request ''claude-sonnet-4'' tool_result_messages) ''openai''
        (Some beta_request) (Some ''openrouter'') =
      Inr (Obj [(''model'', Str ''claude-sonnet-4''),
                (''messages'', Arr tool_result_messages),
                (''max_tokens'', Num 1000),
                (''temperature'', Num (7 / 10)),
                (''stream'', Bool False)])
   \<and> \<not> list_ex annotated tool_result_messages"
proof -
  have c: "isClaudeModel (Str ''claude-sonnet-4'') = Inr True"
    using claude_sonnet by (simp add: isClaudeModel_Str)
  have r: "removeCacheControlFromMessages (Arr tool_result_messages) = Inr (Arr tool_result_messages)"
    by (simp add: removeCacheControlFromMessages_def tool_result_messages_def clean_message_def
        clean_part_def and_then_def)
  have a: "addCacheControlToMessages (Arr tool_result_messages) = Inr (Arr tool_result_messages)"
    by (simp add: addCacheControlToMessages_def tool_result_messages_def mark_message_def
        and_then_def)
  have f: "fromStandardFormat (ir_request ''claude-sonnet-4'' tool_result_messages) ''openai''
        (Some beta_request) (Some ''openrouter'') =
      Inr (Obj [(''model'', Str ''claude-sonnet-4''),
                (''messages'', Arr tool_result_messages),
                (''max_tokens'', Num 1000),
                (''temperature'', Num (7 / 10)),
                (''stream'', Bool False)])"
    using opt_in_beta
    by (simp add: fromStandardFormat_def ir_request_def r a c and_then_def opt_in_def
        str_includes_def split: option.splits)
  have n: "\<not> list_ex annotated tool_result_messages"
    by (simp add: tool_result_messages_def annotated_def content_parts_def
        carries_cache_control_def)
  show ?thesis
    using opt_in_beta claude_sonnet f n by simp
qed

theorem cache_control_on_openrouter_witness:
  "is_obj (ir_request ''claude-sonnet-4'' claude_messages)
   \<and> opt_prop (ir_request ''claude-sonnet-4'' claude_messages) ''model'' = Str ''claude-sonnet-4''
   \<and> opt_prop (ir_request ''claude-sonnet-4'' claude_messages) ''messages'' = Arr claude_messages
   \<and> list_all well_formed_message claude_messages
   \<and> opt_in (Some beta_request)
   \<and> claude_family ''claude-sonnet-4''
   \<and> last_user claude_messages 2
   \<and> (\<exists>out. fromStandardFormat (ir_request ''claude-sonnet-4'' claude_messages) ''openai''
          (Some beta_request) (Some ''openrouter'') =
        Inr (Obj [(''model'', Str ''claude-sonnet-4''),
                  (''messages'', Arr out),
                  (''max_tokens'', Num 1000),
                  (''temperature'', Num (7 / 10)),
                  (''stream'', Bool False)])
        \<and> length out = length claude_messages)
   \<and> fromStandardFormat (ir_request ''claude-sonnet-4'' claude_messages) ''openai''
          (Some beta_request) (Some ''openrouter'') =
        Inr (Obj [(''model'', Str ''claude-sonnet-4''),
                  (''messages'', Arr claude_messages_out),
                  (''max_tokens'', Num 1000),
                  (''temperature'', Num (7 / 10)),
                  (''stream'', Bool False)])
   \<and> fromStandardFormat (ir_request ''gpt-4'' claude_messages) ''openai''
          (Some beta_request) (Some ''openrouter'') =
        Inr (Obj [(''model'', Str ''gpt-4''),
                  (''messages'', Arr (map cleaned_message claude_messages)),
                  (''max_tokens'', Num 1000),
                  (''temperature'', Num (7 / 10)),
                  (''stream'', Bool False)])"
proof -
  have h2: "is_obj (ir_request ''claude-sonnet-4'' claude_messages)"
    by (simp add: ir_request_def)
  have h3: "opt_prop (ir_request ''claude-sonnet-4'' claude_messages) ''model'' = Str ''claude-sonnet-4''"
    by (simp add: ir_request_def)
  have h4: "opt_prop (ir_request ''claude-sonnet-4'' claude_messages) ''messages'' = Arr claude_messages"
    by (simp add: ir_request_def)
  have wf: "list_all well_formed_message claude_messages"
    by (simp add: claude_messages_def well_formed_message_def content_parts_def cached_part_def)
  then have h5: "\<forall>m \<in> set claude_messages. well_formed_message m"
    by (simp add: list_all_iff)
  have lu: "last_user claude_messages 2"
    by (simp add: last_user_def claude_messages_def has_role_def)
  have v: "opt_prop (ir_request ''claude-sonnet-4'' claude_messages) ''max_tokens'' = Num 1000"
    "opt_prop (ir_request ''claude-sonnet-4'' claude_messages) ''temperature'' = Num (7 / 10)"
    "opt_prop (ir_request ''claude-sonnet-4'' claude_messages) ''stream'' = Bool False"
    by (simp_all add: ir_request_def)
  from cache_control_on_openrouter[OF disjI1[OF refl] h2 h3 h4 h5, of "Some beta_request",
      unfolded v]
  obtain out where
    res: "fromStandardFormat (ir_request ''claude-sonnet-4'' claude_messages) ''openai''
          (Some beta_request) (Some ''openrouter'') =
        Inr (Obj [(''model'', Str ''claude-sonnet-4''),
                  (''messages'', Arr out),
                  (''max_tokens'', Num 1000),
                  (''temperature'', Num (7 / 10)),
                  (''stream'', Bool False)])"
    and len: "length out = length claude_messages"
    by (elim exE conjE) (erule (1) that)
  have part: "\<exists>out. fromStandardFormat (ir_request ''claude-sonnet-4'' claude_messages) ''openai''
          (Some beta_request) (Some ''openrouter'') =
        Inr (Obj [(''model'', Str ''claude-sonnet-4''),
                  (''messages'', Arr out),
                  (''max_tokens'', Num 1000),
                  (''temperature'', Num (7 / 10)),
                  (''stream'', Bool False)])
        \<and> length out = length claude_messages"
    using res len by (intro exI[of _ out] conjI)
  have cl: "map cleaned_message claude_messages =
      [Obj [(''role'', Str ''user''),
            (''content'', Arr [Obj [(''type'', Str ''text''), (''text'', Str ''Hi'')]])],
       Obj [(''role'', Str ''assistant''), (''content'', Str ''Hello'')],
       Obj [(''role'', Str ''user''), (''content'', Str ''Bye'')]]"
    by (simp add: claude_messages_def cleaned_message_def cleaned_part_def cached_part_def)
  have lu_cl: "last_user (map cleaned_message claude_messages) 2"
    unfolding cl by (simp add: last_user_def has_role_def)
  have wf_cl: "\<forall>m \<in> set (map cleaned_message claude_messages). well_formed_message m"
    unfolding cl by (simp add: well_formed_message_def content_parts_def)
  have add: "addCacheControlToMessages (Arr (map cleaned_message claude_messages)) =
      Inr (Arr claude_messages_out)"
    unfolding addCacheControl_last_user[OF wf_cl lu_cl]
    unfolding cl by (simp add: marked_message_def claude_messages_out_def cached_part_def)
  have full: "fromStandardFormat (ir_request ''claude-sonnet-4'' claude_messages) ''openai''
          (Some beta_request) (Some ''openrouter'') =
        Inr (Obj [(''model'', Str ''claude-sonnet-4''),
                  (''messages'', Arr claude_messages_out),
                  (''max_tokens'', Num 1000),
                  (''temperature'', Num (7 / 10)),
                  (''stream'', Bool False)])"
    unfolding fromStandardFormat_openrouter[OF disjI1[OF refl] h2 h3 h4 h5] v
    using opt_in_beta claude_sonnet by (simp add: add and_then_def)
  have g2: "is_obj (ir_request ''gpt-4'' claude_messages)"
    by (simp add: ir_request_def)
  have g3: "opt_prop (ir_request ''gpt-4'' claude_messages) ''model'' = Str ''gpt-4''"
    by (simp add: ir_request_def)
  have g4: "opt_prop (ir_request ''gpt-4'' claude_messages) ''messages'' = Arr claude_messages"
    by (simp add: ir_request_def)
  have gv: "opt_prop (ir_request ''gpt-4'' claude_messages) ''max_tokens'' = Num 1000"
    "opt_prop (ir_request ''gpt-4'' claude_messages) ''temperature'' = Num (7 / 10)"
    "opt_prop (ir_request ''gpt-4'' claude_messages) ''stream'' = Bool False"
    by (simp_all add: ir_request_def)
  have other: "fromStandardFormat (ir_request ''gpt-4'' claude_messages) ''openai''
          (Some beta_request) (Some ''openrouter'') =
        Inr (Obj [(''model'', Str ''gpt-4''),
                  (''messages'', Arr (map cleaned_message claude_messages)),
                  (''max_tokens'', Num 1000),
                  (''temperature'', Num (7 / 10)),
                  (''stream'', Bool False)])"
    unfolding fromStandardFormat_openrouter[OF disjI1[OF refl] g2 g3 g4 h5] gv
    using gpt4 by (simp add: and_then_def)
  show ?thesis
    using h2 h3 h4 wf opt_in_beta claude_sonnet lu part full other
    by (intro conjI)
qed

lemma is_system_obj: "is_obj m \<Longrightarrow> is_system m = Inr (has_role ''system'' m)"
  by (simp add: is_system_def has_role_def is_obj_get_prop and_then_def)

lemma not_system_obj: "is_obj m \<Longrightarrow> not_system m = Inr (\<not> has_role ''system'' m)"
  by (simp add: not_system_def has_role_def is_obj_get_prop and_then_def)

lemma find_result_objs:
  "\<forall>m \<in> set ms. is_obj m \<Longrightarrow> find_result is_system ms = Inr (find (has_role ''system'') ms)"
  by (induction ms) (simp_all add: is_system_obj and_then_def)

lemma filter_result_objs:
  "\<forall>m \<in> set ms. is_obj m \<Longrightarrow>
   filter_result not_system ms = Inr (filter (\<lambda>m. \<not> has_role ''system'' m) ms)"
  by (induction ms) (simp_all add: not_system_obj and_then_def)

text \<open>
  C2, as the code has it. Converting an IR request (an object whose messages are objects)
  to the Anthropic shape: if \<open>system\<close> is set (truthy), it is emitted as the top-level field
  and the messages are unchanged. Otherwise, if there is a message with role \<open>system\<close>, the
  content of the first one becomes the top-level \<open>system\<close> and every message with role
  \<open>system\<close> is removed; the other messages are kept in order. If there is none, the
  messages are unchanged and no \<open>system\<close> field is emitted.
\<close>

theorem system_message_hoisted:
  assumes "is_obj standard"
    and "opt_prop standard ''messages'' = Arr ms"
    and "\<forall>m \<in> set ms. is_obj m"
  shows "(truthy (opt_prop standard ''system'') \<longrightarrow>
           fromStandardFormat standard ''anthropic'' req platform =
             Inr (Obj [(''model'', opt_prop standard ''model''),
                       (''messages'', Arr ms),
                       (''max_tokens'', opt_prop standard ''max_tokens''),
                       (''temperature'', opt_prop standard ''temperature''),
                       (''stream'', opt_prop standard ''stream''),
                       (''system'', opt_prop standard ''system'')]))
       \<and> (\<not> truthy (opt_prop standard ''system'') \<longrightarrow>
           (\<forall>systemMessage. find (has_role ''system'') ms = Some systemMessage \<longrightarrow>
              fromStandardFormat standard ''anthropic'' req platform =
                Inr (Obj [(''model'', opt_prop standard ''model''),
                          (''messages'', Arr (filter (\<lambda>m. \<not> has_role ''system'' m) ms)),
                          (''max_tokens'', opt_prop standard ''max_tokens''),
                          (''temperature'', opt_prop standard ''temperature''),
                          (''stream'', opt_prop standard ''stream''),
                          (''system'', opt_prop systemMessage ''content'')]))
         \<and> (find (has_role ''system'') ms = None \<longrightarrow>
              fromStandardFormat standard ''anthropic'' req platform =
                Inr (Obj [(''model'', opt_prop standard ''model''),
                          (''messages'', Arr ms),
                          (''max_tokens'', opt_prop standard ''max_tokens''),
                          (''temperature'', opt_prop standard ''temperature''),
                          (''stream'', opt_prop standard ''stream'')])))"
proof -
  have g: "get_prop standard k = Inr (opt_prop standard k)" for k
    by (rule is_obj_get_prop[OF assms(1)])
  have found: "is_obj m" if "find (has_role ''system'') ms = Some m" for m
    using that assms(3) by (auto simp: find_Some_iff)
  show ?thesis
    by (auto simp: fromStandardFormat_def g assms(2) and_then_def
        find_result_objs[OF assms(3)] filter_result_objs[OF assms(3)]
        is_obj_get_prop[OF found])
qed

text \<open>
  C2 as stated fails: a later message with role \<open>system\<close> is not preserved. Of the
  messages system "A", user "Hi", system "B" only the user message is emitted.
\<close>

theorem system_message_hoisted_counterexample:
  "fromStandardFormat (ir_request ''gpt-4'' two_system_messages) ''anthropic'' None None =
     Inr (Obj [(''model'', Str ''gpt-4''),
               (''messages'', Arr [Obj [(''role'', Str ''user''), (''content'', Str ''Hi'')]]),
               (''max_tokens'', Num 1000),
               (''temperature'', Num (7 / 10)),
               (''stream'', Bool False),
               (''system'', Str ''A'')])
   \<and> two_system_messages ! 2 = Obj [(''role'', Str ''system''), (''content'', Str ''B'')]
   \<and> Obj [(''role'', Str ''system''), (''content'', Str ''B'')]
       \<notin> set [Obj [(''role'', Str ''user''), (''content'', Str ''Hi'')]]"
  by (simp add: fromStandardFormat_def ir_request_def two_system_messages_def and_then_def
      is_system_def not_system_def)

theorem system_message_hoisted_witness:
  "is_obj (ir_request ''gpt-4'' two_system_messages)
   \<and> opt_prop (ir_request ''gpt-4'' two_system_messages) ''messages'' = Arr two_system_messages
   \<and> list_all is_obj two_system_messages
   \<and> \<not> truthy (opt_prop (ir_request ''gpt-4'' two_system_messages) ''system'')
   \<and> find (has_role ''system'') two_system_messages =
        Some (Obj [(''role'', Str ''system''), (''content'', Str ''A'')])
   \<and> fromStandardFormat (ir_request ''gpt-4'' two_system_messages) ''anthropic'' None None =
     Inr (Obj [(''model'', Str ''gpt-4''),
               (''messages'', Arr [Obj [(''role'', Str ''user''), (''content'', Str ''Hi'')]]),
               (''max_tokens'', Num 1000),
               (''temperature'', Num (7 / 10)),
               (''stream'', Bool False),
               (''system'', Str ''A'')])"
proof -
  have h1: "is_obj (ir_request ''gpt-4'' two_system_messages)"
    by (simp add: ir_request_def)
  have h2: "opt_prop (ir_request ''gpt-4'' two_system_messages) ''messages'' = Arr two_system_messages"
    by (simp add: ir_request_def)
  have la: "list_all is_obj two_system_messages"
    by (simp add: two_system_messages_def)
  then have h3: "\<forall>m \<in> set two_system_messages. is_obj m"
    by (simp add: list_all_iff)
  have ns: "\<not> truthy (opt_prop (ir_request ''gpt-4'' two_system_messages) ''system'')"
    by (simp add: ir_request_def)
  have fs: "find (has_role ''system'') two_system_messages =
        Some (Obj [(''role'', Str ''system''), (''content'', Str ''A'')])"
    by (simp add: two_system_messages_def has_role_def)
  have fl: "filter (\<lambda>m. \<not> has_role ''system'' m) two_system_messages =
      [Obj [(''role'', Str ''user''), (''content'', Str ''Hi'')]]"
    by (simp add: two_system_messages_def has_role_def)
  have v: "opt_prop (ir_request ''gpt-4'' two_system_messages) ''model'' = Str ''gpt-4''"
    "opt_prop (ir_request ''gpt-4'' two_system_messages) ''max_tokens'' = Num 1000"
    "opt_prop (ir_request ''gpt-4'' two_system_messages) ''temperature'' = Num (7 / 10)"
    "opt_prop (ir_request ''gpt-4'' two_system_messages) ''stream'' = Bool False"
    by (simp_all add: ir_request_def)
  have "fromStandardFormat (ir_request ''gpt-4'' two_system_messages) ''anthropic'' None None =
     Inr (Obj [(''model'', Str ''gpt-4''),
               (''messages'', Arr [Obj [(''role'', Str ''user''), (''content'', Str ''Hi'')]]),
               (''max_tokens'', Num 1000),
               (''temperature'', Num (7 / 10)),
               (''stream'', Bool False),
               (''system'', Str ''A'')])"
    using system_message_hoisted[OF h1 h2 h3, of None None] ns fs
    by (simp add: fl v)
  then show ?thesis
    using h1 h2 la ns fs by (intro conjI)
qed

text \<open>
  The round trip through the OpenAI shape gives the request back when \<open>max_tokens\<close> and
  \<open>temperature\<close> are not 0.
\<close>

lemma openai_round_trip:
  assumes "max_tokens \<noteq> 0" and "temperature \<noteq> 0"
  shows "round_trip
       (Obj [(''messages'', Arr ms), (''model'', Str model), (''max_tokens'', Num max_tokens),
             (''temperature'', Num temperature), (''stream'', Bool stream)])
       ''openai'' =
     Inr (Obj [(''messages'', Arr ms), (''model'', Str model), (''max_tokens'', Num max_tokens),
               (''temperature'', Num temperature), (''stream'', Bool stream)])"
  using assms
  by (simp add: round_trip_def fromStandardFormat_def toStandardFormat_def and_then_def js_or_def)

text \<open>
  C5 at a request with temperature 0: the conversion to the OpenAI shape keeps the 0, the
  conversion back reads \<open>request.temperature || 0.7\<close> and returns temperature 0.7, so the
  round trip does not give the request back.
\<close>

theorem openai_round_trip_zero_temperature:
  "fromStandardFormat zero_temperature_request ''openai'' None None =
     Inr (Obj [(''model'', Str ''gpt-4''),
               (''messages'', Arr [Obj [(''role'', Str ''user''), (''content'', Str ''Hello'')]]),
               (''max_tokens'', Num 1000),
               (''temperature'', Num 0),
               (''stream'', Bool False)])
   \<and> round_trip zero_temperature_request ''openai'' =
     Inr (Obj [(''messages'', Arr [Obj [(''role'', Str ''user''), (''content'', Str ''Hello'')]]),
               (''model'', Str ''gpt-4''),
               (''max_tokens'', Num 1000),
               (''temperature'', Num (7 / 10)),
               (''stream'', Bool False)])
   \<and> round_trip zero_temperature_request ''openai'' \<noteq> Inr zero_temperature_request"
  by (simp add: round_trip_def fromStandardFormat_def toStandardFormat_def
      zero_temperature_request_def and_then_def js_or_def)

end
